theory Spec2Isabelle
  imports Main "HOL-Library.AList"
begin

section \<open>Values of the Python program\<close>

text \<open>
  A Python \<open>str\<close> is a \<open>string\<close>; its characters are the code points below 256.
  A \<open>Dict[str, str]\<close> is an association list in insertion order, as a Python
  dictionary keeps it.  The values that \<open>json.dumps\<close> takes and \<open>response.json()\<close>
  gives are the type \<open>json\<close>; a floating-point number is kept as its lexeme, since no
  arithmetic is done on it.
\<close>

type_synonym dict = "(string \<times> string) list"

datatype json =
    JNull
  | JBool bool
  | JInt int
  | JFloat string
  | JString string
  | JArray "json list"
  | JObject "(string \<times> json) list"

subsection \<open>\<open>str(int)\<close>\<close>

definition digit_char :: "nat \<Rightarrow> char" where
  "digit_char d = char_of (48 + d)"

fun str_nat :: "nat \<Rightarrow> string" where
  "str_nat n = (if n < 10 then [digit_char n] else str_nat (n div 10) @ [digit_char (n mod 10)])"

definition str_int :: "int \<Rightarrow> string" where
  "str_int i = (if i < 0 then CHR ''-'' # str_nat (nat (- i)) else str_nat (nat i))"

subsection \<open>\<open>json.dumps\<close> with its default arguments\<close>

text \<open>
  \<open>ensure_ascii=True\<close>: inside a string literal the quote and the backslash are escaped,
  the control characters have their short escapes or \<open>\u00XX\<close>, and every character
  outside the range from the space to the tilde is written \<open>\u00XX\<close>.  The item separator
  is a comma and a space, the key separator a colon and a space.
\<close>

definition hex_char :: "nat \<Rightarrow> char" where
  "hex_char d = (if d < 10 then char_of (48 + d) else char_of (87 + d))"

definition escape_char :: "char \<Rightarrow> string" where
  "escape_char c =
     (if c = CHR 0x22 then [CHR 0x5C, CHR 0x22]
      else if c = CHR 0x5C then [CHR 0x5C, CHR 0x5C]
      else if c = CHR 0x0A then [CHR 0x5C, CHR ''n'']
      else if c = CHR 0x0D then [CHR 0x5C, CHR ''r'']
      else if c = CHR 0x09 then [CHR 0x5C, CHR ''t'']
      else if c = CHR 0x08 then [CHR 0x5C, CHR ''b'']
      else if c = CHR 0x0C then [CHR 0x5C, CHR ''f'']
      else if of_char c < (32::nat) \<or> (126::nat) < of_char c
        then [CHR 0x5C, CHR ''u'', CHR ''0'', CHR ''0'',
              hex_char (of_char c div 16), hex_char (of_char c mod 16)]
      else [c])"

definition encode_string :: "string \<Rightarrow> string" where
  "encode_string s = CHR 0x22 # concat (map escape_char s) @ [CHR 0x22]"

fun join :: "string \<Rightarrow> string list \<Rightarrow> string" where
  "join sep [] = []"
| "join sep [x] = x"
| "join sep (x # y # ys) = x @ sep @ join sep (y # ys)"

fun json_dumps :: "json \<Rightarrow> string" where
  "json_dumps JNull = ''null''"
| "json_dumps (JBool b) = (if b then ''true'' else ''false'')"
| "json_dumps (JInt i) = str_int i"
| "json_dumps (JFloat s) = s"
| "json_dumps (JString s) = encode_string s"
| "json_dumps (JArray xs) = ''['' @ join '', '' (map json_dumps xs) @ '']''"
| "json_dumps (JObject kvs) =
     ''{'' @ join '', '' (map (\<lambda>kv. encode_string (fst kv) @ '': '' @ json_dumps (snd kv)) kvs)
       @ ''}''"

section \<open>The client of \<open>codegpt.py\<close>\<close>

subsection \<open>Errors, requests, responses\<close>

text \<open>
  Every \<open>raise\<close> of the source is a constructor of \<open>error\<close>, named after the exception
  class it raises; \<open>Raised\<close> holds an exception raised inside a collaborator that is not
  part of the file (the helpers of \<open>utils.py\<close>, the constructors of \<open>types.py\<close>,
  \<open>response.json()\<close>, \<open>open\<close>).
\<close>

datatype 'x error =
    ValueError string
  | Exception string
  | FileNotFoundError string
  | KeyError string
  | TypeError string
  | NotImplementedError string
  | Raised 'x

datatype verb = GET | POST | PATCH | DELETE

record request =
  req_verb :: verb
  req_url :: string
  req_headers :: dict
  req_data :: "string option"
  req_files :: "(string \<times> string \<times> string \<times> string option) option"
  req_stream :: bool

record response =
  status_code :: int
  resp_text :: string

text \<open>
  The collaborators: the environment variables, the HTTP transport (the response to a
  request, given the requests sent before it), the two helpers imported from
  \<open>utils.py\<close>, \<open>response.json()\<close>, the constructors \<open>Agent\<close> and \<open>Document\<close> of
  \<open>types.py\<close>, and the file system.  None of them is in \<open>codegpt.py\<close>, so each is a
  parameter, and what is proved of the client holds for every one of them.
\<close>

record ('x, 'r, 'a, 'd) env =
  getenv :: "string \<Rightarrow> string option"
  transport :: "request list \<Rightarrow> request \<Rightarrow> response"
  handle_stream :: "response \<Rightarrow> string \<Rightarrow> 'r"
  handle_non_stream :: "response \<Rightarrow> string \<Rightarrow> 'x + 'r"
  resp_json :: "response \<Rightarrow> 'x + json"
  Agent :: "json \<Rightarrow> 'x + 'a"
  Document :: "json \<Rightarrow> 'x + 'd"
  path_exists :: "string \<Rightarrow> bool"
  guess_type :: "string \<Rightarrow> string option"
  open_rb :: "string \<Rightarrow> 'x + string"

subsection \<open>The state: dictionary objects, the instance, the effects\<close>

text \<open>
  A dictionary is a mutable object, so the state has a store of dictionaries and a
  reference is an index into it; \<open>self.headers\<close> is such a reference.  \<open>sent\<close> lists the
  requests issued so far, oldest first, and \<open>printed\<close> the lines written by \<open>print\<close>.
\<close>

record world =
  heap :: "dict list"
  sent :: "request list"
  printed :: "string list"

record state = world +
  headers :: nat
  is_streaming :: bool

definition deref :: "'z world_scheme \<Rightarrow> nat \<Rightarrow> dict" where
  "deref st a = (if a < length (heap st) then heap st ! a else [])"

definition dict_new :: "'z world_scheme \<Rightarrow> dict \<Rightarrow> nat \<times> 'z world_scheme" where
  "dict_new st d = (length (heap st), st\<lparr>heap := heap st @ [d]\<rparr>)"

definition dict_copy :: "'z world_scheme \<Rightarrow> nat \<Rightarrow> nat \<times> 'z world_scheme" where
  "dict_copy st a = dict_new st (deref st a)"

definition dict_setitem :: "'z world_scheme \<Rightarrow> nat \<Rightarrow> string \<Rightarrow> string \<Rightarrow> 'z world_scheme" where
  "dict_setitem st a k v = st\<lparr>heap := (heap st)[a := AList.update k v (deref st a)]\<rparr>"

definition dict_delitem :: "'z world_scheme \<Rightarrow> nat \<Rightarrow> string \<Rightarrow> 'x error + 'z world_scheme" where
  "dict_delitem st a k =
     (if k \<in> set (map fst (deref st a))
      then Inr (st\<lparr>heap := (heap st)[a := AList.delete k (deref st a)]\<rparr>)
      else Inl (KeyError k))"

definition truthy :: "string option \<Rightarrow> bool" where
  "truthy v = (case v of None \<Rightarrow> False | Some s \<Rightarrow> s \<noteq> [])"

definition base_url :: string where
  "base_url = ''https://api-beta.codegpt.co/api/v1''"

definition JUDINI_TUTORIAL :: string where
  "JUDINI_TUTORIAL = ''https://api-beta.codegpt.co/api/v1/docs''"

subsection \<open>\<open>__init__\<close>\<close>

definition CodeGPTPlus_init ::
  "('x, 'r, 'a, 'd) env \<Rightarrow> world \<Rightarrow> string option \<Rightarrow> string option \<Rightarrow> 'x error + state" where
  "CodeGPTPlus_init E w api_key org_id =
     (let api_key = (if \<not> truthy api_key then getenv E ''CODEGPT_API_KEY'' else api_key) in
      if \<not> truthy api_key
      then Inl (Exception (''JUDINI: API key not found. Please set the CODEGPT_API_KEY''
                  @ '' environment variable or pass it as an argument.''))
      else
        let (h, w1) = dict_new w [(''Content-Type'', ''application/json''),
                                  (''Authorization'', ''Bearer '' @ the api_key)];
            org_id = (if \<not> truthy org_id then getenv E ''CODEGPT_ORG_ID'' else org_id);
            w2 = (if truthy org_id then dict_setitem w1 h ''CodeGPT-Org-Id'' (the org_id) else w1)
        in Inr (world.extend w2 (state.fields h False)))"

subsection \<open>The \<open>requests\<close> calls and the status check\<close>

definition send :: "('x, 'r, 'a, 'd) env \<Rightarrow> state \<Rightarrow> request \<Rightarrow> response \<times> state" where
  "send E st req = (transport E (sent st) req, st\<lparr>sent := sent st @ [req]\<rparr>)"

definition requests_get :: "('x, 'r, 'a, 'd) env \<Rightarrow> state \<Rightarrow> string \<Rightarrow> nat \<Rightarrow> response \<times> state" where
  "requests_get E st u h =
     send E st \<lparr>req_verb = GET, req_url = u, req_headers = deref st h, req_data = None,
                req_files = None, req_stream = False\<rparr>"

definition requests_delete :: "('x, 'r, 'a, 'd) env \<Rightarrow> state \<Rightarrow> string \<Rightarrow> nat \<Rightarrow> response \<times> state" where
  "requests_delete E st u h =
     send E st \<lparr>req_verb = DELETE, req_url = u, req_headers = deref st h, req_data = None,
                req_files = None, req_stream = False\<rparr>"

definition requests_patch ::
  "('x, 'r, 'a, 'd) env \<Rightarrow> state \<Rightarrow> string \<Rightarrow> nat \<Rightarrow> string \<Rightarrow> response \<times> state" where
  "requests_patch E st u h d =
     send E st \<lparr>req_verb = PATCH, req_url = u, req_headers = deref st h, req_data = Some d,
                req_files = None, req_stream = False\<rparr>"

definition requests_post ::
  "('x, 'r, 'a, 'd) env \<Rightarrow> state \<Rightarrow> string \<Rightarrow> nat \<Rightarrow> string option \<Rightarrow>
     (string \<times> string \<times> string \<times> string option) option \<Rightarrow> bool \<Rightarrow> response \<times> state" where
  "requests_post E st u h d f s =
     send E st \<lparr>req_verb = POST, req_url = u, req_headers = deref st h, req_data = d,
                req_files = f, req_stream = s\<rparr>"

definition api_error :: "response \<Rightarrow> 'x error" where
  "api_error response =
     Exception (''JUDINI: API Response was: '' @ str_int (status_code response) @ '' ''
                @ resp_text response @ '' '' @ JUDINI_TUTORIAL)"

definition lift :: "'x + 'b \<Rightarrow> 'x error + 'b" where
  "lift r = (case r of Inl x \<Rightarrow> Inl (Raised x) | Inr v \<Rightarrow> Inr v)"

subsection \<open>\<open>chat_completion\<close>\<close>

definition messages_json :: "dict list \<Rightarrow> json" where
  "messages_json messages = JArray (map (\<lambda>m. JObject (map (\<lambda>kv. (fst kv, JString (snd kv))) m)) messages)"

definition chat_payload :: "string \<Rightarrow> dict list \<Rightarrow> bool \<Rightarrow> json" where
  "chat_payload agent_id messages stream =
     JObject [(''agentId'', JString agent_id),
              (''messages'', messages_json messages),
              (''stream'', JBool stream),
              (''format'', JString ''json'')]"

definition chat_completion ::
  "('x, 'r, 'a, 'd) env \<Rightarrow> state \<Rightarrow> string \<Rightarrow> dict list \<Rightarrow> bool \<Rightarrow> string \<Rightarrow>
     state \<times> ('x error + 'r)" where
  "chat_completion E st agent_id messages stream format =
     (if length messages = 0
      then (st, Inl (ValueError ''JUDINI: messages array should not be empty''))
      else if agent_id = []
      then (st, Inl (ValueError ''JUDINI: agent_id should not be empty''))
      else if format \<notin> set [''json'', ''text'']
      then (st, Inl (ValueError ''JUDINI: format should be either \"json\" or \"text\"''))
      else
        let (h, st1) = dict_copy st (headers st);
            st2 = dict_setitem st1 h ''media_type'' ''text/event-stream'';
            payload = json_dumps (chat_payload agent_id messages stream);
            (response, st3) =
               requests_post E st2 (base_url @ ''/chat/completions'') h (Some payload) None stream
        in if status_code response \<noteq> 200
           then (st3, Inl (api_error response))
           else if stream
           then (st3, Inr (handle_stream E response format))
           else (st3, lift (handle_non_stream E response format)))"

subsection \<open>Agents\<close>

text \<open>
  \<open>[Agent(**agent_dict) for agent_dict in agent_lists]\<close> iterates over whatever
  \<open>response.json()\<close> gave: the items of a list, the keys of a dictionary, the characters
  of a string; any other value is not iterable.
\<close>

fun iterate :: "json \<Rightarrow> 'x error + json list" where
  "iterate (JArray xs) = Inr xs"
| "iterate (JObject kvs) = Inr (map (\<lambda>kv. JString (fst kv)) kvs)"
| "iterate (JString s) = Inr (map (\<lambda>c. JString [c]) s)"
| "iterate JNull = Inl (TypeError (CHR 0x27 # ''NoneType'' @ CHR 0x27 # '' object is not iterable''))"
| "iterate (JBool b) = Inl (TypeError (CHR 0x27 # ''bool'' @ CHR 0x27 # '' object is not iterable''))"
| "iterate (JInt i) = Inl (TypeError (CHR 0x27 # ''int'' @ CHR 0x27 # '' object is not iterable''))"
| "iterate (JFloat s) = Inl (TypeError (CHR 0x27 # ''float'' @ CHR 0x27 # '' object is not iterable''))"

fun comprehension :: "('b \<Rightarrow> 'e + 'c) \<Rightarrow> 'b list \<Rightarrow> 'e + 'c list" where
  "comprehension f [] = Inr []"
| "comprehension f (x # xs) =
     (case f x of
        Inl e \<Rightarrow> Inl e
      | Inr y \<Rightarrow> (case comprehension f xs of Inl e \<Rightarrow> Inl e | Inr ys \<Rightarrow> Inr (y # ys)))"

definition get_agents :: "('x, 'r, 'a, 'd) env \<Rightarrow> state \<Rightarrow> state \<times> ('x error + 'a list)" where
  "get_agents E st =
     (let (response, st1) = requests_get E st (base_url @ ''/agent'') (headers st)
      in if status_code response \<noteq> 200
         then (st1, Inl (api_error response))
         else (st1,
           case lift (resp_json E response) of
             Inl e \<Rightarrow> Inl e
           | Inr agent_lists \<Rightarrow>
               (case iterate agent_lists of
                  Inl e \<Rightarrow> Inl e
                | Inr items \<Rightarrow> comprehension (\<lambda>agent_dict. lift (Agent E agent_dict)) items)))"

definition get_agent :: "('x, 'r, 'a, 'd) env \<Rightarrow> state \<Rightarrow> string \<Rightarrow> state \<times> ('x error + 'a)" where
  "get_agent E st agent_id =
     (let (response, st1) =
            requests_get E st (base_url @ ''/agent/'' @ agent_id @ ''?populate=agent_documents'')
              (headers st)
      in if status_code response \<noteq> 200
         then (st1, Inl (api_error response))
         else (st1,
           case lift (resp_json E response) of
             Inl e \<Rightarrow> Inl e
           | Inr j \<Rightarrow> lift (Agent E j)))"

text \<open>
  \<open>topk\<close> and \<open>temperature\<close> are integers, as the signatures annotate them (a call
  that passes a floating-point temperature is outside the model).
\<close>

definition create_agent ::
  "('x, 'r, 'a, 'd) env \<Rightarrow> state \<Rightarrow> string \<Rightarrow> string \<Rightarrow> string \<Rightarrow> string \<Rightarrow> int \<Rightarrow> int \<Rightarrow>
     state \<times> ('x error + 'a)" where
  "create_agent E st name model prompt welcome topk temperature =
     (let payload = json_dumps (JObject [(''name'', JString name),
                                         (''model'', JString model),
                                         (''prompt'', JString prompt),
                                         (''welcome'', JString welcome),
                                         (''topk'', JInt topk),
                                         (''temperature'', JInt temperature)]);
          (response, st1) = requests_post E st (base_url @ ''/agent'') (headers st) (Some payload)
                              None False
      in if status_code response \<noteq> 200
         then (st1, Inl (api_error response))
         else (st1,
           case lift (resp_json E response) of
             Inl e \<Rightarrow> Inl e
           | Inr j \<Rightarrow> lift (Agent E j)))"

text \<open>
  \<open>update_agent\<close> fills its payload by one \<open>if x: payload[key] = x\<close> per optional
  parameter; \<open>put_str\<close>, \<open>put_int\<close> and \<open>put_bool\<close> are that statement for a parameter
  of type \<open>Optional[str]\<close>, \<open>Optional[int]\<close> and \<open>Optional[bool]\<close>.
\<close>

definition put_str :: "string \<Rightarrow> string option \<Rightarrow> (string \<times> json) list \<Rightarrow> (string \<times> json) list" where
  "put_str key x payload =
     (case x of
        None \<Rightarrow> payload
      | Some s \<Rightarrow> if s \<noteq> [] then AList.update key (JString s) payload else payload)"

definition put_int :: "string \<Rightarrow> int option \<Rightarrow> (string \<times> json) list \<Rightarrow> (string \<times> json) list" where
  "put_int key x payload =
     (case x of
        None \<Rightarrow> payload
      | Some i \<Rightarrow> if i \<noteq> 0 then AList.update key (JInt i) payload else payload)"

definition put_bool :: "string \<Rightarrow> bool option \<Rightarrow> (string \<times> json) list \<Rightarrow> (string \<times> json) list" where
  "put_bool key x payload =
     (case x of
        None \<Rightarrow> payload
      | Some b \<Rightarrow> if b then AList.update key (JBool b) payload else payload)"

definition update_agent_payload ::
  "string option \<Rightarrow> string option \<Rightarrow> string option \<Rightarrow> string option \<Rightarrow> int option \<Rightarrow>
     int option \<Rightarrow> bool option \<Rightarrow> string option \<Rightarrow> (string \<times> json) list" where
  "update_agent_payload name model prompt welcome topk temperature is_public pincode =
     (let payload = [];
          payload = put_str ''name'' name payload;
          payload = put_str ''model'' model payload;
          payload = put_str ''prompt'' prompt payload;
          payload = put_str ''welcome'' welcome payload;
          payload = put_int ''topk'' topk payload;
          payload = put_int ''temperature'' temperature payload;
          payload = put_bool ''is_public'' is_public payload;
          payload = put_str ''pincode'' pincode payload
      in payload)"

definition update_agent ::
  "('x, 'r, 'a, 'd) env \<Rightarrow> state \<Rightarrow> string \<Rightarrow> string option \<Rightarrow> string option \<Rightarrow> string option \<Rightarrow>
     string option \<Rightarrow> int option \<Rightarrow> int option \<Rightarrow> bool option \<Rightarrow> string option \<Rightarrow>
     state \<times> ('x error + 'a)" where
  "update_agent E st agent_id name model prompt welcome topk temperature is_public pincode =
     (if agent_id = []
      then (st, Inl (ValueError ''JUDINI: agent_id should not be empty''))
      else
        let payload = update_agent_payload name model prompt welcome topk temperature
                        is_public pincode
        in if payload = []
           then (st, Inl (ValueError ''JUDINI: At least one parameter should be provided''))
           else
             let payload = json_dumps (JObject payload);
                 (response, st1) =
                    requests_patch E st (base_url @ ''/agent/'' @ agent_id) (headers st) payload
             in if status_code response \<noteq> 200
                then (st1, Inl (api_error response))
                else (st1,
                  case lift (resp_json E response) of
                    Inl e \<Rightarrow> Inl e
                  | Inr j \<Rightarrow> lift (Agent E j)))"

definition delete_agent :: "('x, 'r, 'a, 'd) env \<Rightarrow> state \<Rightarrow> string \<Rightarrow> state \<times> ('x error + unit)" where
  "delete_agent E st agent_id =
     (let (response, st1) = requests_delete E st (base_url @ ''/agent/'' @ agent_id) (headers st)
      in if status_code response \<noteq> 200
         then (st1, Inl (api_error response))
         else (st1\<lparr>printed := printed st1 @ [''Agent deleted successfully'']\<rparr>, Inr ()))"

definition update_agent_documents ::
  "('x, 'r, 'a, 'd) env \<Rightarrow> state \<Rightarrow> string \<Rightarrow> string list \<Rightarrow> state \<times> ('x error + unit)" where
  "update_agent_documents E st agent_id document_ids =
     (st, Inl (NotImplementedError ''JUDINI: update_agent_documents is not implemented''))"

subsection \<open>Documents\<close>

definition get_documents :: "('x, 'r, 'a, 'd) env \<Rightarrow> state \<Rightarrow> state \<times> ('x error + 'd list)" where
  "get_documents E st =
     (let (response, st1) = requests_get E st (base_url @ ''/document'') (headers st)
      in if status_code response \<noteq> 200
         then (st1, Inl (api_error response))
         else (st1,
           case lift (resp_json E response) of
             Inl e \<Rightarrow> Inl e
           | Inr document_lists \<Rightarrow>
               (case iterate document_lists of
                  Inl e \<Rightarrow> Inl e
                | Inr items \<Rightarrow>
                    comprehension (\<lambda>document_dict. lift (Document E document_dict)) items)))"

definition get_document :: "('x, 'r, 'a, 'd) env \<Rightarrow> state \<Rightarrow> string \<Rightarrow> state \<times> ('x error + 'd)" where
  "get_document E st document_id =
     (let (response, st1) =
            requests_get E st (base_url @ ''/document/'' @ document_id) (headers st)
      in if status_code response \<noteq> 200
         then (st1, Inl (api_error response))
         else (st1,
           case lift (resp_json E response) of
             Inl e \<Rightarrow> Inl e
           | Inr j \<Rightarrow> lift (Document E j)))"

definition update_document_metadata ::
  "('x, 'r, 'a, 'd) env \<Rightarrow> state \<Rightarrow> string \<Rightarrow> string option \<Rightarrow> string option \<Rightarrow> string option \<Rightarrow>
     string option \<Rightarrow> string option \<Rightarrow> state \<times> ('x error + unit)" where
  "update_document_metadata E st document_id title description summary keywords language =
     (st, Inl (NotImplementedError ''JUDINI: update_document_metadata is not implemented''))"

definition basename :: "string \<Rightarrow> string" where
  "basename p = rev (takeWhile (\<lambda>c. c \<noteq> CHR ''/'') (rev p))"

fun getitem :: "json \<Rightarrow> string \<Rightarrow> 'x error + json" where
  "getitem (JObject kvs) k = (case map_of kvs k of Some v \<Rightarrow> Inr v | None \<Rightarrow> Inl (KeyError k))"
| "getitem (JArray xs) k = Inl (TypeError ''list indices must be integers or slices, not str'')"
| "getitem (JString s) k = Inl (TypeError (''string indices must be integers, not '' @ CHR 0x27 # ''str'' @ [CHR 0x27]))"
| "getitem JNull k = Inl (TypeError (CHR 0x27 # ''NoneType'' @ CHR 0x27 # '' object is not subscriptable''))"
| "getitem (JBool b) k = Inl (TypeError (CHR 0x27 # ''bool'' @ CHR 0x27 # '' object is not subscriptable''))"
| "getitem (JInt i) k = Inl (TypeError (CHR 0x27 # ''int'' @ CHR 0x27 # '' object is not subscriptable''))"
| "getitem (JFloat s) k = Inl (TypeError (CHR 0x27 # ''float'' @ CHR 0x27 # '' object is not subscriptable''))"

definition upload_document ::
  "('x, 'r, 'a, 'd) env \<Rightarrow> state \<Rightarrow> string \<Rightarrow> state \<times> ('x error + (string \<times> json) list)" where
  "upload_document E st file_path =
     (if \<not> path_exists E file_path
      then (st, Inl (FileNotFoundError (''JUDINI: File not found: '' @ file_path)))
      else
        let file_type = guess_type E file_path;
            (h, st1) = dict_copy st (headers st)
        in case dict_delitem st1 h ''Content-Type'' of
             Inl e \<Rightarrow> (st1, Inl e)
           | Inr st2 \<Rightarrow>
               (case lift (open_rb E file_path) of
                  Inl e \<Rightarrow> (st2, Inl e)
                | Inr file \<Rightarrow>
                    let (response, st3) =
                          requests_post E st2 (base_url @ ''/document'') h None
                            (Some (''file'', basename file_path, file, file_type)) False
                    in if status_code response \<noteq> 200
                       then (st3, Inl (api_error response))
                       else (st3,
                         case lift (resp_json E response) of
                           Inl e \<Rightarrow> Inl e
                         | Inr response_json \<Rightarrow>
                             (case getitem response_json ''documentId'' of
                                Inl e \<Rightarrow> Inl e
                              | Inr v \<Rightarrow> Inr [(''id'', v)]))))"

definition delete_document :: "('x, 'r, 'a, 'd) env \<Rightarrow> state \<Rightarrow> string \<Rightarrow> state \<times> ('x error + unit)" where
  "delete_document E st document_id =
     (let (response, st1) =
            requests_delete E st (base_url @ ''/document/'' @ document_id) (headers st)
      in if status_code response \<noteq> 200
         then (st1, Inl (api_error response))
         else (st1\<lparr>printed := printed st1 @ [''Document deleted successfully'']\<rparr>, Inr ()))"

subsection \<open>Any sequence of calls\<close>

datatype call =
    ChatCompletion string "dict list" bool string
  | GetAgents
  | GetAgent string
  | CreateAgent string string string string int int
  | UpdateAgent string "string option" "string option" "string option" "string option"
      "int option" "int option" "bool option" "string option"
  | DeleteAgent string
  | UpdateAgentDocuments string "string list"
  | GetDocuments
  | GetDocument string
  | UpdateDocumentMetadata string "string option" "string option" "string option"
      "string option" "string option"
  | UploadDocument string
  | DeleteDocument string

text \<open>The state a call leaves, whether it returns or raises.\<close>

fun run_call :: "('x, 'r, 'a, 'd) env \<Rightarrow> state \<Rightarrow> call \<Rightarrow> state" where
  "run_call E st (ChatCompletion a ms s f) = fst (chat_completion E st a ms s f)"
| "run_call E st GetAgents = fst (get_agents E st)"
| "run_call E st (GetAgent a) = fst (get_agent E st a)"
| "run_call E st (CreateAgent n m p w k t) = fst (create_agent E st n m p w k t)"
| "run_call E st (UpdateAgent a n m p w k t i c) = fst (update_agent E st a n m p w k t i c)"
| "run_call E st (DeleteAgent a) = fst (delete_agent E st a)"
| "run_call E st (UpdateAgentDocuments a ds) = fst (update_agent_documents E st a ds)"
| "run_call E st GetDocuments = fst (get_documents E st)"
| "run_call E st (GetDocument d) = fst (get_document E st d)"
| "run_call E st (UpdateDocumentMetadata d t de s k l) =
     fst (update_document_metadata E st d t de s k l)"
| "run_call E st (UploadDocument p) = fst (upload_document E st p)"
| "run_call E st (DeleteDocument d) = fst (delete_document E st d)"

definition run_calls :: "('x, 'r, 'a, 'd) env \<Rightarrow> state \<Rightarrow> call list \<Rightarrow> state" where
  "run_calls E st cs = foldl (run_call E) st cs"

section \<open>The response decoder of \<open>utils.py\<close>\<close>

text \<open>
  \<open>codegpt.py\<close> imports \<open>handle_stream\<close> and \<open>handle_non_stream\<close> from \<open>utils.py\<close>,
  which is not among the sources.  This section models the two helpers from the
  spec's StreamDecoder: its section 4.1, the data model of section 3 and the wire
  framing of section 6.
\<close>

text \<open>
  Modelled from the spec: the target format of the missing helpers, one of \<open>text\<close> and
  \<open>json\<close>.
\<close>

datatype format = Text | Json

text \<open>
  Modelled from the spec: what the missing helpers read the wire with.  The spec names
  neither the JSON reader nor the fields of a payload (the delta of a streamed
  fragment, the answer of a whole body, the error marker), so they are parameters.
\<close>

record wire =
  loads :: "string \<Rightarrow> json option"
  delta_field :: string
  answer_field :: string
  error_field :: string

text \<open>
  Modelled from the spec: the tagged variant that the missing \<open>handle_stream\<close> decodes a
  frame into (section 9): a content fragment with its parsed payload and its textual
  delta, an error event with the server's message, the terminal marker, or a frame
  that is not recognized.
\<close>

datatype event = Content json string | Error json | Done | Unrecognized

text \<open>
  Modelled from the spec: the IncrementalChunk that the missing \<open>handle_stream\<close> yields,
  a text fragment or a structured fragment.
\<close>

datatype chunk = TextChunk string | JsonChunk json

text \<open>
  Modelled from the spec: the AggregateResult that the missing \<open>handle_non_stream\<close>
  returns, a text or a structured value.
\<close>

datatype aggregate = AggregateText string | AggregateJson json

text \<open>
  Modelled from the spec: the two errors of the missing helpers, \<open>DecodeError\<close> with the
  raw body and \<open>StreamError\<close> with the server-supplied message.
\<close>

datatype decode_error = DecodeError string | StreamError json

text \<open>
  Modelled from the spec: the states of the missing \<open>handle_stream\<close> (the state machine
  of section 4.1); \<open>DONE\<close> and \<open>FAILED\<close> are terminal and \<open>FAILED\<close> carries the error.
\<close>

datatype decoder_state = AWAITING_FRAME | EMIT_CHUNK chunk | DONE | FAILED decode_error

text \<open>
  Modelled from the spec: what the missing helpers hand back to \<open>chat_completion\<close>: the
  lazy sequence of \<open>handle_stream\<close>, as the chunks it yields in order and the state it
  ends in, or the fully materialized value of \<open>handle_non_stream\<close>.
\<close>

datatype completion = Streamed "chunk list" decoder_state | Whole aggregate

text \<open>
  Modelled from the spec: the transport's sequence of raw lines (\<open>iter_lines\<close> of the
  \<open>requests\<close> response, used by the missing \<open>handle_stream\<close>).  The body is cut at every
  line feed; a line feed at the end opens no further line.
\<close>

fun iter_lines :: "string \<Rightarrow> string list" where
  "iter_lines [] = []"
| "iter_lines (c # cs) =
     (if c = CHR 0x0A then [] # iter_lines cs
      else (case iter_lines cs of [] \<Rightarrow> [[c]] | l # ls \<Rightarrow> (c # l) # ls))"

text \<open>
  Modelled from the spec: the framing read by the missing \<open>handle_stream\<close>.  A record
  holds \<open>field: value\<close> lines and only the field \<open>data\<close> is interpreted; every other
  line, the blank separator included, carries no frame.
\<close>

definition data_value :: "string \<Rightarrow> string option" where
  "data_value l =
     (if take 5 l = ''data:''
      then Some (if take 1 (drop 5 l) = '' '' then drop 6 l else drop 5 l)
      else None)"

text \<open>
  Modelled from the spec: the tagged decode step of the missing \<open>handle_stream\<close>, one of
  Content, Error, Done, Unrecognized per frame.  The terminal marker is the literal
  \<open>[DONE]\<close>; an object with the error field is an error event carrying that field's
  value; an object whose delta field is a string is a content fragment; a payload that
  is not JSON, not an object, or lacks the expected keys is unrecognized.
\<close>

definition classify :: "wire \<Rightarrow> string \<Rightarrow> event" where
  "classify W p =
     (if p = ''[DONE]'' then Done
      else case loads W p of
        None \<Rightarrow> Unrecognized
      | Some v \<Rightarrow>
          (case v of
             JObject kvs \<Rightarrow>
               (case map_of kvs (error_field W) of
                  Some m \<Rightarrow> Error m
                | None \<Rightarrow>
                    (case map_of kvs (delta_field W) of
                       Some (JString t) \<Rightarrow> Content v t
                     | _ \<Rightarrow> Unrecognized))
           | _ \<Rightarrow> Unrecognized))"

text \<open>
  Modelled from the spec: the chunk that the missing \<open>handle_stream\<close> yields for a content
  fragment, its textual delta for \<open>format=text\<close> and the structured fragment as it is
  for \<open>format=json\<close>.
\<close>

definition chunk_of :: "format \<Rightarrow> json \<Rightarrow> string \<Rightarrow> chunk" where
  "chunk_of fmt v t = (case fmt of Text \<Rightarrow> TextChunk t | Json \<Rightarrow> JsonChunk v)"

text \<open>
  Modelled from the spec: one transition of the missing \<open>handle_stream\<close> out of
  \<open>AWAITING_FRAME\<close>, on the next line of the transport.
\<close>

definition on_line :: "wire \<Rightarrow> format \<Rightarrow> string \<Rightarrow> decoder_state" where
  "on_line W fmt l =
     (case data_value l of
        None \<Rightarrow> AWAITING_FRAME
      | Some p \<Rightarrow>
          (case classify W p of
             Error m \<Rightarrow> FAILED (StreamError m)
           | Done \<Rightarrow> DONE
           | Content v t \<Rightarrow> EMIT_CHUNK (chunk_of fmt v t)
           | Unrecognized \<Rightarrow> AWAITING_FRAME))"

text \<open>
  Modelled from the spec: the generator of the missing \<open>handle_stream\<close>, as the chunks it
  yields in order and the terminal state it ends in.  A body that is exhausted ends the
  sequence normally.
\<close>

fun decode_lines :: "wire \<Rightarrow> format \<Rightarrow> string list \<Rightarrow> chunk list \<times> decoder_state" where
  "decode_lines W fmt [] = ([], DONE)"
| "decode_lines W fmt (l # ls) =
     (case on_line W fmt l of
        AWAITING_FRAME \<Rightarrow> decode_lines W fmt ls
      | EMIT_CHUNK c \<Rightarrow> (case decode_lines W fmt ls of (cs, s) \<Rightarrow> (c # cs, s))
      | DONE \<Rightarrow> ([], DONE)
      | FAILED e \<Rightarrow> ([], FAILED e))"

text \<open>
  Modelled from the spec: the missing \<open>handle_stream\<close> of \<open>utils.py\<close> (streaming mode of
  the StreamDecoder).
\<close>

definition stream_decode :: "wire \<Rightarrow> response \<Rightarrow> format \<Rightarrow> completion" where
  "stream_decode W response fmt =
     (case decode_lines W fmt (iter_lines (resp_text response)) of (cs, s) \<Rightarrow> Streamed cs s)"

text \<open>
  Modelled from the spec: the answer payload that the missing \<open>handle_non_stream\<close>
  extracts, the textual field of the parsed body.
\<close>

definition answer_text :: "wire \<Rightarrow> json \<Rightarrow> string option" where
  "answer_text W v =
     (case v of
        JObject kvs \<Rightarrow>
          (case map_of kvs (answer_field W) of Some (JString t) \<Rightarrow> Some t | _ \<Rightarrow> None)
      | _ \<Rightarrow> None)"

text \<open>
  Modelled from the spec: the missing \<open>handle_non_stream\<close> of \<open>utils.py\<close> (non-streaming
  mode of the StreamDecoder).
\<close>

definition non_stream_decode :: "wire \<Rightarrow> response \<Rightarrow> format \<Rightarrow> decode_error + completion" where
  "non_stream_decode W response fmt =
     (case loads W (resp_text response) of
        None \<Rightarrow> Inl (DecodeError (resp_text response))
      | Some v \<Rightarrow>
          (case answer_text W v of
             None \<Rightarrow> Inl (DecodeError (resp_text response))
           | Some t \<Rightarrow>
               Inr (Whole (case fmt of Text \<Rightarrow> AggregateText t | Json \<Rightarrow> AggregateJson v))))"

text \<open>
  Modelled from the spec: the events of a stream, which the missing \<open>handle_stream\<close>
  meets in arrival order: one per \<open>data\<close> line.
\<close>

definition stream_events :: "wire \<Rightarrow> string list \<Rightarrow> event list" where
  "stream_events W ls = map (classify W) (List.map_filter data_value ls)"

text \<open>
  Modelled from the spec: the events that end the sequence of the missing
  \<open>handle_stream\<close>, stream completion and the in-band error.
\<close>

fun terminal :: "event \<Rightarrow> bool" where
  "terminal Done = True"
| "terminal (Error m) = True"
| "terminal (Content v t) = False"
| "terminal Unrecognized = False"

text \<open>
  Modelled from the spec: the payload fragment of an event, for the aggregate that no
  source file builds; only a message event has one.
\<close>

fun fragment :: "event \<Rightarrow> string" where
  "fragment (Content v t) = t"
| "fragment Done = []"
| "fragment (Error m) = []"
| "fragment Unrecognized = []"

text \<open>
  Modelled from the spec: the text of the AggregateResult of section 3, which no source
  file builds: the fragments of the message events of a stream, concatenated in
  arrival order.  The stream ends at its first terminal event.
\<close>

definition aggregate_text :: "wire \<Rightarrow> string \<Rightarrow> string" where
  "aggregate_text W b =
     concat (map fragment (takeWhile (\<lambda>e. \<not> terminal e) (stream_events W (iter_lines b))))"

text \<open>
  Modelled from the spec: the text of a chunk yielded by the missing \<open>handle_stream\<close>;
  a structured chunk has none.
\<close>

fun chunk_text :: "chunk \<Rightarrow> string" where
  "chunk_text (TextChunk t) = t"
| "chunk_text (JsonChunk v) = []"

text \<open>
  Modelled from the spec: a frame on the wire, a \<open>data\<close> line and the blank line that
  separates records (the bodies of section 8's examples).
\<close>

definition frame :: "string \<Rightarrow> string" where
  "frame p = ''data: '' @ p @ [CHR 0x0A, CHR 0x0A]"

text \<open>
  Modelled from the spec: a malformed frame in the words of section 4.1, a payload that
  is not JSON, or that is JSON without the expected keys; the terminal marker is not
  malformed.
\<close>

definition malformed :: "wire \<Rightarrow> string \<Rightarrow> bool" where
  "malformed W p =
     (p \<noteq> ''[DONE]'' \<and>
      (case loads W p of
         None \<Rightarrow> True
       | Some v \<Rightarrow>
           (case v of
              JObject kvs \<Rightarrow>
                map_of kvs (error_field W) = None \<and>
                (case map_of kvs (delta_field W) of Some (JString t) \<Rightarrow> False | _ \<Rightarrow> True)
            | _ \<Rightarrow> True)))"

text \<open>
  Modelled from the spec: the payload of a well-formed content frame, which the missing
  \<open>handle_stream\<close> decodes: it stands on one line and is a JSON object with a string
  under the delta field and no error field.
\<close>

definition content_payload :: "wire \<Rightarrow> string \<Rightarrow> json \<Rightarrow> string \<Rightarrow> bool" where
  "content_payload W p v t =
     (p \<noteq> ''[DONE]'' \<and> CHR 0x0A \<notin> set p \<and> loads W p = Some v \<and>
      (\<exists>kvs. v = JObject kvs \<and> map_of kvs (error_field W) = None \<and>
             map_of kvs (delta_field W) = Some (JString t)))"

text \<open>
  Modelled from the spec: the payload of an in-band error frame, which the missing
  \<open>handle_stream\<close> decodes: it stands on one line and is a JSON object with the error
  field, whose value is the server's message.
\<close>

definition error_payload :: "wire \<Rightarrow> string \<Rightarrow> json \<Rightarrow> bool" where
  "error_payload W p m =
     (p \<noteq> ''[DONE]'' \<and> CHR 0x0A \<notin> set p \<and>
      (\<exists>kvs. loads W p = Some (JObject kvs) \<and> map_of kvs (error_field W) = Some m))"

text \<open>
  Modelled from the spec: the format that the missing helpers take from the string
  that \<open>chat_completion\<close> has validated and passes on.
\<close>

definition format_of :: "string \<Rightarrow> format" where
  "format_of f = (if f = ''json'' then Json else Text)"

section \<open>A JSON reader and a concrete environment\<close>

text \<open>
  \<open>json.loads\<close> is a library function; the theorems below hold for every reader.  To run
  the model on the bodies of the spec's examples, \<open>json_loads\<close> reads the JSON texts
  whose characters are below 256 (\<open>NaN\<close> and \<open>Infinity\<close> are not read).  The fuel
  is the length of the text, and each nested call consumes a character.
\<close>

definition is_ws :: "char \<Rightarrow> bool" where
  "is_ws c = (c = CHR '' '' \<or> c = CHR 0x0A \<or> c = CHR 0x0D \<or> c = CHR 0x09)"

definition skip_ws :: "string \<Rightarrow> string" where
  "skip_ws s = dropWhile is_ws s"

definition is_digit :: "char \<Rightarrow> bool" where
  "is_digit c = ((48::nat) \<le> of_char c \<and> of_char c \<le> (57::nat))"

definition hex_val :: "char \<Rightarrow> nat option" where
  "hex_val c =
     (let n = (of_char c :: nat) in
      if 48 \<le> n \<and> n \<le> 57 then Some (n - 48)
      else if 97 \<le> n \<and> n \<le> 102 then Some (n - 87)
      else if 65 \<le> n \<and> n \<le> 70 then Some (n - 55)
      else None)"

definition unescape :: "char \<Rightarrow> char option" where
  "unescape e =
     (if e = CHR 0x22 then Some (CHR 0x22)
      else if e = CHR 0x5C then Some (CHR 0x5C)
      else if e = CHR ''/'' then Some (CHR ''/'')
      else if e = CHR ''n'' then Some (CHR 0x0A)
      else if e = CHR ''r'' then Some (CHR 0x0D)
      else if e = CHR ''t'' then Some (CHR 0x09)
      else if e = CHR ''b'' then Some (CHR 0x08)
      else if e = CHR ''f'' then Some (CHR 0x0C)
      else None)"

definition cons_fst :: "'b \<Rightarrow> ('b list \<times> 'c) option \<Rightarrow> ('b list \<times> 'c) option" where
  "cons_fst x r = (case r of None \<Rightarrow> None | Some (xs, rest) \<Rightarrow> Some (x # xs, rest))"

text \<open>The characters of a string literal after its opening quote, and what follows it.\<close>

fun parse_chars :: "string \<Rightarrow> (string \<times> string) option" where
  "parse_chars [] = None"
| "parse_chars (c # cs) =
     (if c = CHR 0x22 then Some ([], cs)
      else if c = CHR 0x5C then
        (case cs of
           [] \<Rightarrow> None
         | e # r \<Rightarrow>
             if e = CHR ''u'' then
               (case r of
                  a # b # x # y # r' \<Rightarrow>
                    (case (hex_val a, hex_val b, hex_val x, hex_val y) of
                       (Some 0, Some 0, Some h, Some l) \<Rightarrow>
                         cons_fst (char_of (16 * h + l)) (parse_chars r')
                     | _ \<Rightarrow> None)
                | _ \<Rightarrow> None)
             else (case unescape e of
                     None \<Rightarrow> None
                   | Some ch \<Rightarrow> cons_fst ch (parse_chars r)))
      else if (of_char c :: nat) < 32 then None
      else cons_fst c (parse_chars cs))"

definition nat_of_digits :: "string \<Rightarrow> nat" where
  "nat_of_digits ds = foldl (\<lambda>n c. 10 * n + (of_char c - 48)) 0 ds"

definition parse_number :: "string \<Rightarrow> (json \<times> string) option" where
  "parse_number s =
     (let neg = (take 1 s = ''-'');
          s1 = (if neg then drop 1 s else s);
          ds = takeWhile is_digit s1;
          r = dropWhile is_digit s1
      in if ds = [] \<or> (1 < length ds \<and> hd ds = CHR ''0'') then None
         else
           let frac = (if take 1 r = ''.'' then CHR ''.'' # takeWhile is_digit (drop 1 r) else []);
               r1 = drop (length frac) r;
               sgn = (if take 1 (drop 1 r1) = ''+'' \<or> take 1 (drop 1 r1) = ''-''
                      then take 1 (drop 1 r1) else []);
               ex = (if take 1 r1 = ''e'' \<or> take 1 r1 = ''E''
                     then take 1 r1 @ sgn @ takeWhile is_digit (drop (1 + length sgn) r1)
                     else []);
               r2 = drop (length ex) r1
           in if length frac = 1 \<or> (ex \<noteq> [] \<and> length ex = 1 + length sgn) then None
              else if frac = [] \<and> ex = []
              then Some (JInt (if neg then - int (nat_of_digits ds) else int (nat_of_digits ds)), r)
              else Some (JFloat (take (length s - length r2) s), r2))"

text \<open>A Python dictionary keeps a key at its first position and with its last value.\<close>

definition dict_of_pairs :: "(string \<times> json) list \<Rightarrow> (string \<times> json) list" where
  "dict_of_pairs kvs = foldl (\<lambda>d kv. AList.update (fst kv) (snd kv) d) [] kvs"

fun parse_value :: "nat \<Rightarrow> string \<Rightarrow> (json \<times> string) option"
  and parse_elems :: "nat \<Rightarrow> string \<Rightarrow> (json list \<times> string) option"
  and parse_members :: "nat \<Rightarrow> string \<Rightarrow> ((string \<times> json) list \<times> string) option" where
  "parse_value 0 s = None"
| "parse_value (Suc n) s =
     (case skip_ws s of
        [] \<Rightarrow> None
      | c # cs \<Rightarrow>
          if c = CHR ''{'' then
            (case skip_ws cs of
               [] \<Rightarrow> None
             | c2 # r2 \<Rightarrow>
                 if c2 = CHR ''}'' then Some (JObject [], r2)
                 else (case parse_members n (c2 # r2) of
                         None \<Rightarrow> None
                       | Some (kvs, r) \<Rightarrow> Some (JObject (dict_of_pairs kvs), r)))
          else if c = CHR ''['' then
            (case skip_ws cs of
               [] \<Rightarrow> None
             | c2 # r2 \<Rightarrow>
                 if c2 = CHR '']'' then Some (JArray [], r2)
                 else (case parse_elems n (c2 # r2) of
                         None \<Rightarrow> None
                       | Some (xs, r) \<Rightarrow> Some (JArray xs, r)))
          else if c = CHR 0x22 then
            (case parse_chars cs of None \<Rightarrow> None | Some (t, r) \<Rightarrow> Some (JString t, r))
          else if take 4 (c # cs) = ''null'' then Some (JNull, drop 3 cs)
          else if take 4 (c # cs) = ''true'' then Some (JBool True, drop 3 cs)
          else if take 5 (c # cs) = ''false'' then Some (JBool False, drop 4 cs)
          else parse_number (c # cs))"
| "parse_elems 0 s = None"
| "parse_elems (Suc n) s =
     (case parse_value n s of
        None \<Rightarrow> None
      | Some (v, r) \<Rightarrow>
          (case skip_ws r of
             [] \<Rightarrow> None
           | c # r' \<Rightarrow>
               if c = CHR '','' then cons_fst v (parse_elems n r')
               else if c = CHR '']'' then Some ([v], r')
               else None))"
| "parse_members 0 s = None"
| "parse_members (Suc n) s =
     (case skip_ws s of
        [] \<Rightarrow> None
      | q # cs \<Rightarrow>
          if q \<noteq> CHR 0x22 then None
          else
            (case parse_chars cs of
               None \<Rightarrow> None
             | Some (k, r) \<Rightarrow>
                 (case skip_ws r of
                    [] \<Rightarrow> None
                  | col # r1 \<Rightarrow>
                      if col \<noteq> CHR '':'' then None
                      else
                        (case parse_value n r1 of
                           None \<Rightarrow> None
                         | Some (v, r2) \<Rightarrow>
                             (case skip_ws r2 of
                                [] \<Rightarrow> None
                              | c # r3 \<Rightarrow>
                                  if c = CHR '','' then cons_fst (k, v) (parse_members n r3)
                                  else if c = CHR ''}'' then Some ([(k, v)], r3)
                                  else None)))))"

definition json_loads :: "string \<Rightarrow> json option" where
  "json_loads s =
     (case parse_value (Suc (length s)) s of
        None \<Rightarrow> None
      | Some (v, r) \<Rightarrow> if skip_ws r = [] then Some v else None)"

text \<open>
  A concrete wire format (the field \<open>text\<close> is the one of the spec's example bodies),
  a concrete environment whose transport answers every request with the response \<open>r\<close>
  and whose helpers are the decoders above, and the instance that \<open>__init__\<close> builds from
  the key \<open>key\<close>.  The theorems are instantiated at them.
\<close>

definition example_wire :: wire where
  "example_wire = \<lparr>loads = json_loads, delta_field = ''text'', answer_field = ''text'',
                    error_field = ''error''\<rparr>"

definition example_env :: "response \<Rightarrow> (decode_error, completion, json, json) env" where
  "example_env r =
     \<lparr>getenv = (\<lambda>v. None),
      transport = (\<lambda>before req. r),
      handle_stream = (\<lambda>response f. stream_decode example_wire response (format_of f)),
      handle_non_stream = (\<lambda>response f. non_stream_decode example_wire response (format_of f)),
      resp_json = (\<lambda>response. case json_loads (resp_text response) of
                                  None \<Rightarrow> Inl (DecodeError (resp_text response))
                                | Some v \<Rightarrow> Inr v),
      Agent = Inr,
      Document = Inr,
      path_exists = (\<lambda>p. p = ''/tmp/notes.txt''),
      guess_type = (\<lambda>p. Some ''text/plain''),
      open_rb = (\<lambda>p. Inr ''hello'')\<rparr>"

definition example_state :: state where
  "example_state =
     \<lparr>heap = [[(''Content-Type'', ''application/json''), (''Authorization'', ''Bearer key'')]],
      sent = [], printed = [], headers = 0, is_streaming = False\<rparr>"

definition hello :: "dict list" where
  "hello = [[(''role'', ''user''), (''content'', ''Hello, World!'')]]"

text \<open>
  For the frame property of \<open>self.headers\<close>: between two states the attribute holds the
  same reference, the reference is in the store, and the dictionary it points to has
  the same content.
\<close>

definition unchanged :: "state \<Rightarrow> state \<Rightarrow> bool" where
  "unchanged st st' =
     (headers st' = headers st \<and> headers st' < length (heap st') \<and>
      heap st' ! headers st' = heap st ! headers st)"

section \<open>Properties of \<open>chat_completion\<close>\<close>

lemma init_example:
  "CodeGPTPlus_init (example_env r) \<lparr>heap = [], sent = [], printed = []\<rparr> (Some ''key'') None
     = Inr example_state"
  by (simp add: CodeGPTPlus_init_def example_env_def example_state_def truthy_def dict_new_def
      world.extend_def state.fields_def Let_def)

text \<open>
  What a call with valid arguments does: one POST whose headers are the copy of
  \<open>self.headers\<close> with \<open>media_type\<close> added, then the status check, then the helper.
\<close>

lemma chat_completion_valid:
  assumes "messages \<noteq> []" "agent_id \<noteq> []" "format = ''json'' \<or> format = ''text''"
  shows "chat_completion E st agent_id messages stream format =
     (let req = \<lparr>req_verb = POST, req_url = base_url @ ''/chat/completions'',
                  req_headers = AList.update ''media_type'' ''text/event-stream''
                                  (deref st (headers st)),
                  req_data = Some (json_dumps (chat_payload agent_id messages stream)),
                  req_files = None, req_stream = stream\<rparr>;
          response = transport E (sent st) req
      in (st\<lparr>heap := heap st @ [req_headers req], sent := sent st @ [req]\<rparr>,
          if status_code response \<noteq> 200 then Inl (api_error response)
          else if stream then Inr (handle_stream E response format)
          else lift (handle_non_stream E response format)))"
  using assms
  by (auto simp add: chat_completion_def dict_copy_def dict_new_def dict_setitem_def
      requests_post_def send_def deref_def Let_def)

text \<open>
  C6.  A call of \<open>chat_completion\<close> with an empty message list, an empty \<open>agent_id\<close> or a
  format other than \<open>json\<close> and \<open>text\<close> raises \<open>ValueError\<close> (the spec's ValidationError)
  and leaves the state as it was: in particular \<open>sent\<close> is unchanged, so no request was
  issued.
\<close>

theorem chat_completion_validates:
  assumes "messages = [] \<or> agent_id = [] \<or> format \<notin> {''json'', ''text''}"
  shows "\<exists>msg. chat_completion E st agent_id messages stream format = (st, Inl (ValueError msg))"
  using assms by (auto simp add: chat_completion_def)

theorem chat_completion_validates_witness:
  "\<exists>msg. chat_completion (example_env \<lparr>status_code = 200, resp_text = []\<rparr>) example_state
           ''agent'' [] True ''text'' = (example_state, Inl (ValueError msg))"
  by (rule chat_completion_validates) simp

lemma str_int_examples:
  "str_int 500 = ''500''" "str_int 201 = ''201''" "str_int 200 = ''200''"
  by code_simp+

text \<open>
  C5, as the code has it.  With valid arguments \<open>chat_completion\<close> issues one request
  and raises the transport-level \<open>Exception\<close> if and only if the status of the response
  is not exactly 200 (line 83 tests \<open>!= 200\<close>, as every other method of the class does).
  The message holds the status code and the raw body text, and the result is then the
  same whatever the two helpers are: the body is never passed to a decoder.
\<close>

theorem chat_completion_non_200:
  assumes "messages \<noteq> []" "agent_id \<noteq> []" "format \<in> {''json'', ''text''}"
  shows "\<exists>req. sent (fst (chat_completion E st agent_id messages stream format)) = sent st @ [req] \<and>
     (let response = transport E (sent st) req;
          result = snd (chat_completion E st agent_id messages stream format)
      in ((\<exists>msg. result = Inl (Exception msg)) \<longleftrightarrow> status_code response \<noteq> 200) \<and>
         (status_code response \<noteq> 200 \<longrightarrow>
            result = Inl (Exception (''JUDINI: API Response was: '' @ str_int (status_code response)
                       @ '' '' @ resp_text response @ '' '' @ JUDINI_TUTORIAL)) \<and>
            (\<forall>hs hns. chat_completion (E\<lparr>handle_stream := hs, handle_non_stream := hns\<rparr>) st
                         agent_id messages stream format
                       = chat_completion E st agent_id messages stream format)))"
proof -
  from assms have f: "format = ''json'' \<or> format = ''text''" by simp
  show ?thesis
    unfolding chat_completion_valid [OF assms(1,2) f] Let_def
    by (auto simp add: api_error_def lift_def split: sum.splits)
qed

theorem chat_completion_non_200_witness:
  "\<exists>req. sent (fst (chat_completion (example_env \<lparr>status_code = 500, resp_text = ''oops''\<rparr>)
                     example_state ''agent'' hello True ''json'')) = [req] \<and>
     snd (chat_completion (example_env \<lparr>status_code = 500, resp_text = ''oops''\<rparr>)
            example_state ''agent'' hello True ''json'')
       = Inl (Exception ''JUDINI: API Response was: 500 oops https://api-beta.codegpt.co/api/v1/docs'')"
proof -
  have "hello \<noteq> []" "''agent'' \<noteq> []" "''json'' \<in> {''json'', ''text''}"
    by (simp_all add: hello_def)
  from chat_completion_non_200 [OF this, of "example_env \<lparr>status_code = 500, resp_text = ''oops''\<rparr>"
      example_state True]
  show ?thesis
    by (auto simp add: Let_def example_env_def example_state_def JUDINI_TUTORIAL_def
        str_int_examples)
qed

text \<open>
  C5 as stated fails: 201 is a 2xx status, and on a response with status 201
  \<open>chat_completion\<close> raises the transport-level \<open>Exception\<close>; the same body with status 200
  is decoded.
\<close>

theorem chat_completion_status_201_counterexample:
  "(200::int) \<le> 201 \<and> (201::int) < 300 \<and>
   snd (chat_completion (example_env \<lparr>status_code = 201, resp_text = ''{\"text\": \"Hi\"}''\<rparr>)
          example_state ''agent'' hello False ''text'')
     = Inl (Exception ''JUDINI: API Response was: 201 {\"text\": \"Hi\"} https://api-beta.codegpt.co/api/v1/docs'') \<and>
   snd (chat_completion (example_env \<lparr>status_code = 200, resp_text = ''{\"text\": \"Hi\"}''\<rparr>)
          example_state ''agent'' hello False ''text'')
     = Inr (Whole (AggregateText ''Hi''))"
  by (simp add: chat_completion_def hello_def example_env_def example_state_def
      dict_copy_def dict_new_def dict_setitem_def requests_post_def send_def api_error_def
      JUDINI_TUTORIAL_def str_int_examples Let_def lift_def non_stream_decode_def
      example_wire_def format_of_def json_loads_def skip_ws_def is_ws_def cons_fst_def
      dict_of_pairs_def answer_text_def)

lemma encode_keys:
  "encode_string ''agentId'' = ''\"agentId\"''"
  "encode_string ''messages'' = ''\"messages\"''"
  "encode_string ''stream'' = ''\"stream\"''"
  "encode_string ''format'' = ''\"format\"''"
  "encode_string ''json'' = ''\"json\"''"
  by (simp_all add: encode_string_def escape_char_def)

text \<open>The text of the payload of lines 74 to 79.\<close>

lemma chat_payload_text:
  "json_dumps (chat_payload agent_id messages stream) =
     ''{\"agentId\": '' @ encode_string agent_id @ '', \"messages\": ''
       @ json_dumps (messages_json messages) @ '', \"stream\": ''
       @ (if stream then ''true'' else ''false'') @ '', \"format\": \"json\"}''"
  by (simp add: chat_payload_def encode_keys)

lemma chat_payload_format:
  "\<exists>kvs. chat_payload agent_id messages stream = JObject kvs \<and>
         map_of kvs ''format'' = Some (JString ''json'')"
  by (simp add: chat_payload_def)

text \<open>
  C8.  Whatever \<open>format\<close> the caller gives (of the two that pass validation), the
  payload sent is a JSON object whose \<open>format\<close> member is the string \<open>json\<close>, and its
  text ends with that member.  The state after the call, with the request in it, is
  the same for \<open>format = json\<close> and \<open>format = text\<close>; the argument reaches only the
  helper that decodes the response.
\<close>

theorem chat_completion_sends_format_json:
  assumes "messages \<noteq> []" "agent_id \<noteq> []" "format \<in> {''json'', ''text''}"
  shows "\<exists>req kvs pre.
       sent (fst (chat_completion E st agent_id messages stream format)) = sent st @ [req] \<and>
       req_data req = Some (json_dumps (JObject kvs)) \<and>
       map_of kvs ''format'' = Some (JString ''json'') \<and>
       json_dumps (JObject kvs) = pre @ '', \"format\": \"json\"}'' \<and>
       fst (chat_completion E st agent_id messages stream ''json'')
         = fst (chat_completion E st agent_id messages stream ''text'') \<and>
       snd (chat_completion E st agent_id messages stream format)
         = (let response = transport E (sent st) req
            in if status_code response \<noteq> 200 then Inl (api_error response)
               else if stream then Inr (handle_stream E response format)
               else lift (handle_non_stream E response format))"
proof -
  from assms have f: "format = ''json'' \<or> format = ''text''" by simp
  obtain kvs where kvs: "chat_payload agent_id messages stream = JObject kvs"
    and fmt: "map_of kvs ''format'' = Some (JString ''json'')"
    using chat_payload_format by blast
  define req where "req = \<lparr>req_verb = POST, req_url = base_url @ ''/chat/completions'',
       req_headers = AList.update ''media_type'' ''text/event-stream'' (deref st (headers st)),
       req_data = Some (json_dumps (chat_payload agent_id messages stream)),
       req_files = None, req_stream = stream\<rparr>"
  have run: "\<And>g. g = ''json'' \<or> g = ''text'' \<Longrightarrow>
      chat_completion E st agent_id messages stream g =
        (st\<lparr>heap := heap st @ [req_headers req], sent := sent st @ [req]\<rparr>,
         let response = transport E (sent st) req
         in if status_code response \<noteq> 200 then Inl (api_error response)
            else if stream then Inr (handle_stream E response g)
            else lift (handle_non_stream E response g))"
    by (simp add: chat_completion_valid [OF assms(1,2)] req_def Let_def)
  have 1: "sent (fst (chat_completion E st agent_id messages stream format)) = sent st @ [req]"
    by (simp add: run [OF f])
  have 2: "req_data req = Some (json_dumps (JObject kvs))"
    by (simp add: req_def kvs)
  have 3: "json_dumps (JObject kvs) =
      (''{\"agentId\": '' @ encode_string agent_id @ '', \"messages\": ''
       @ json_dumps (messages_json messages) @ '', \"stream\": ''
       @ (if stream then ''true'' else ''false'')) @ '', \"format\": \"json\"}''"
    unfolding kvs [symmetric] chat_payload_text by simp
  have 4: "fst (chat_completion E st agent_id messages stream ''json'')
         = fst (chat_completion E st agent_id messages stream ''text'')"
    by (simp add: run)
  have 5: "snd (chat_completion E st agent_id messages stream format)
         = (let response = transport E (sent st) req
            in if status_code response \<noteq> 200 then Inl (api_error response)
               else if stream then Inr (handle_stream E response format)
               else lift (handle_non_stream E response format))"
    by (simp add: run [OF f])
  from 1 2 fmt 3 4 5 show ?thesis by blast
qed

theorem chat_completion_sends_format_json_witness:
  "(\<exists>req kvs pre.
       sent (fst (chat_completion (example_env \<lparr>status_code = 200, resp_text = ''{}''\<rparr>)
                    example_state ''agent'' hello False ''text'')) = sent example_state @ [req] \<and>
       req_data req = Some (json_dumps (JObject kvs)) \<and>
       map_of kvs ''format'' = Some (JString ''json'') \<and>
       json_dumps (JObject kvs) = pre @ '', \"format\": \"json\"}'' \<and>
       fst (chat_completion (example_env \<lparr>status_code = 200, resp_text = ''{}''\<rparr>)
              example_state ''agent'' hello False ''json'')
         = fst (chat_completion (example_env \<lparr>status_code = 200, resp_text = ''{}''\<rparr>)
                  example_state ''agent'' hello False ''text'') \<and>
       snd (chat_completion (example_env \<lparr>status_code = 200, resp_text = ''{}''\<rparr>)
              example_state ''agent'' hello False ''text'')
         = (let response = transport (example_env \<lparr>status_code = 200, resp_text = ''{}''\<rparr>)
                             (sent example_state) req
            in if status_code response \<noteq> 200 then Inl (api_error response)
               else if False
               then Inr (handle_stream (example_env \<lparr>status_code = 200, resp_text = ''{}''\<rparr>)
                           response ''text'')
               else lift (handle_non_stream (example_env \<lparr>status_code = 200, resp_text = ''{}''\<rparr>)
                            response ''text''))) \<and>
   map req_data (sent (fst (chat_completion (example_env \<lparr>status_code = 200, resp_text = ''{}''\<rparr>)
                              example_state ''agent'' hello False ''text'')))
     = [Some ''{\"agentId\": \"agent\", \"messages\": [{\"role\": \"user\", \"content\": \"Hello, World!\"}], \"stream\": false, \"format\": \"json\"}'']"
proof (rule conjI)
  show "\<exists>req kvs pre.
       sent (fst (chat_completion (example_env \<lparr>status_code = 200, resp_text = ''{}''\<rparr>)
                    example_state ''agent'' hello False ''text'')) = sent example_state @ [req] \<and>
       req_data req = Some (json_dumps (JObject kvs)) \<and>
       map_of kvs ''format'' = Some (JString ''json'') \<and>
       json_dumps (JObject kvs) = pre @ '', \"format\": \"json\"}'' \<and>
       fst (chat_completion (example_env \<lparr>status_code = 200, resp_text = ''{}''\<rparr>)
              example_state ''agent'' hello False ''json'')
         = fst (chat_completion (example_env \<lparr>status_code = 200, resp_text = ''{}''\<rparr>)
                  example_state ''agent'' hello False ''text'') \<and>
       snd (chat_completion (example_env \<lparr>status_code = 200, resp_text = ''{}''\<rparr>)
              example_state ''agent'' hello False ''text'')
         = (let response = transport (example_env \<lparr>status_code = 200, resp_text = ''{}''\<rparr>)
                             (sent example_state) req
            in if status_code response \<noteq> 200 then Inl (api_error response)
               else if False
               then Inr (handle_stream (example_env \<lparr>status_code = 200, resp_text = ''{}''\<rparr>)
                           response ''text'')
               else lift (handle_non_stream (example_env \<lparr>status_code = 200, resp_text = ''{}''\<rparr>)
                            response ''text''))"
    by (rule chat_completion_sends_format_json) (simp_all add: hello_def)
next
  have "hello \<noteq> []" by (simp add: hello_def)
  then show "map req_data (sent (fst (chat_completion
                 (example_env \<lparr>status_code = 200, resp_text = ''{}''\<rparr>)
                 example_state ''agent'' hello False ''text'')))
     = [Some ''{\"agentId\": \"agent\", \"messages\": [{\"role\": \"user\", \"content\": \"Hello, World!\"}], \"stream\": false, \"format\": \"json\"}'']"
    by (simp add: chat_completion_valid Let_def example_state_def chat_payload_text
        messages_json_def hello_def encode_string_def escape_char_def)
qed

text \<open>
  C7.  With valid arguments the text sent as the payload holds, between the brackets
  of its \<open>messages\<close> member, the serialisations of the caller's messages in the order
  of the list, separated by a comma and a space: nothing is reordered, inserted or
  removed.  Within a message the keys keep the order of the dictionary.
\<close>

theorem chat_completion_keeps_message_order:
  assumes "messages \<noteq> []" "agent_id \<noteq> []" "format \<in> {''json'', ''text''}"
  shows "\<exists>req. sent (fst (chat_completion E st agent_id messages stream format)) = sent st @ [req] \<and>
     req_data req = Some (json_dumps (chat_payload agent_id messages stream)) \<and>
     json_dumps (chat_payload agent_id messages stream) =
       ''{\"agentId\": '' @ encode_string agent_id @ '', \"messages\": [''
         @ join '', '' (map (\<lambda>m. json_dumps (JObject (map (\<lambda>kv. (fst kv, JString (snd kv))) m)))
                         messages)
         @ ''], \"stream\": '' @ (if stream then ''true'' else ''false'')
         @ '', \"format\": \"json\"}''"
proof -
  from assms have f: "format = ''json'' \<or> format = ''text''" by simp
  have "json_dumps (messages_json messages) =
      ''['' @ join '', '' (map (\<lambda>m. json_dumps (JObject (map (\<lambda>kv. (fst kv, JString (snd kv))) m)))
                         messages) @ '']''"
    by (simp add: messages_json_def comp_def)
  then have "json_dumps (chat_payload agent_id messages stream) =
       ''{\"agentId\": '' @ encode_string agent_id @ '', \"messages\": [''
         @ join '', '' (map (\<lambda>m. json_dumps (JObject (map (\<lambda>kv. (fst kv, JString (snd kv))) m)))
                         messages)
         @ ''], \"stream\": '' @ (if stream then ''true'' else ''false'')
         @ '', \"format\": \"json\"}''"
    by (simp add: chat_payload_text)
  then show ?thesis
    by (simp add: chat_completion_valid [OF assms(1,2) f] Let_def)
qed

theorem chat_completion_keeps_message_order_witness:
  "\<exists>req. sent (fst (chat_completion (example_env \<lparr>status_code = 200, resp_text = ''{}''\<rparr>)
                     example_state ''agent''
                     [[(''role'', ''system''), (''content'', ''Be brief.'')],
                      [(''role'', ''user''), (''content'', ''Hi'')]] False ''text''))
            = sent example_state @ [req] \<and>
     req_data req = Some (json_dumps (chat_payload ''agent''
                     [[(''role'', ''system''), (''content'', ''Be brief.'')],
                      [(''role'', ''user''), (''content'', ''Hi'')]] False)) \<and>
     json_dumps (chat_payload ''agent''
                     [[(''role'', ''system''), (''content'', ''Be brief.'')],
                      [(''role'', ''user''), (''content'', ''Hi'')]] False) =
       ''{\"agentId\": \"agent\", \"messages\": [{\"role\": \"system\", \"content\": \"Be brief.\"}, {\"role\": \"user\", \"content\": \"Hi\"}], \"stream\": false, \"format\": \"json\"}''"
  using chat_completion_keeps_message_order [of
      "[[(''role'', ''system''), (''content'', ''Be brief.'')], [(''role'', ''user''), (''content'', ''Hi'')]]"
      "''agent''" "''text''" "example_env \<lparr>status_code = 200, resp_text = ''{}''\<rparr>"
      example_state False]
  by (simp add: encode_string_def escape_char_def)

section \<open>Properties of \<open>update_agent\<close>\<close>

text \<open>
  The payload holds exactly the truthy parameters, in the order of the \<open>if\<close>
  statements of lines 238 to 253: each key is new when its statement runs, so
  \<open>payload[key] = x\<close> appends.
\<close>

lemma update_fresh: "k \<notin> fst ` set p \<Longrightarrow> AList.update k v p = p @ [(k, v)]"
  by (induction p) auto

lemma put_str_fresh:
  "k \<notin> fst ` set p \<Longrightarrow>
   put_str k x p = p @ (if x \<in> {None, Some []} then [] else [(k, JString (the x))])"
  by (cases x) (simp_all add: put_str_def update_fresh)

lemma put_int_fresh:
  "k \<notin> fst ` set p \<Longrightarrow>
   put_int k x p = p @ (if x \<in> {None, Some 0} then [] else [(k, JInt (the x))])"
  by (cases x) (simp_all add: put_int_def update_fresh)

lemma put_bool_fresh:
  "k \<notin> fst ` set p \<Longrightarrow>
   put_bool k x p = p @ (if x \<in> {None, Some False} then [] else [(k, JBool True)])"
  by (cases x) (simp_all add: put_bool_def update_fresh)

lemma update_agent_payload_eq:
  "update_agent_payload name model prompt welcome topk temperature is_public pincode =
     (if name \<in> {None, Some []} then [] else [(''name'', JString (the name))])
     @ (if model \<in> {None, Some []} then [] else [(''model'', JString (the model))])
     @ (if prompt \<in> {None, Some []} then [] else [(''prompt'', JString (the prompt))])
     @ (if welcome \<in> {None, Some []} then [] else [(''welcome'', JString (the welcome))])
     @ (if topk \<in> {None, Some 0} then [] else [(''topk'', JInt (the topk))])
     @ (if temperature \<in> {None, Some 0} then [] else [(''temperature'', JInt (the temperature))])
     @ (if is_public \<in> {None, Some False} then [] else [(''is_public'', JBool True)])
     @ (if pincode \<in> {None, Some []} then [] else [(''pincode'', JString (the pincode))])"
proof -
  let ?a = "if name \<in> {None, Some []} then [] else [(''name'', JString (the name))]"
  let ?b = "if model \<in> {None, Some []} then [] else [(''model'', JString (the model))]"
  let ?c = "if prompt \<in> {None, Some []} then [] else [(''prompt'', JString (the prompt))]"
  let ?d = "if welcome \<in> {None, Some []} then [] else [(''welcome'', JString (the welcome))]"
  let ?e = "if topk \<in> {None, Some 0} then [] else [(''topk'', JInt (the topk))]"
  let ?f = "if temperature \<in> {None, Some 0} then [] else [(''temperature'', JInt (the temperature))]"
  let ?g = "if is_public \<in> {None, Some False} then [] else [(''is_public'', JBool True)]"
  let ?h = "if pincode \<in> {None, Some []} then [] else [(''pincode'', JString (the pincode))]"
  have ka: "fst ` set ?a \<subseteq> {''name''}" by simp
  have kb: "fst ` set ?b \<subseteq> {''model''}" by simp
  have kc: "fst ` set ?c \<subseteq> {''prompt''}" by simp
  have kd: "fst ` set ?d \<subseteq> {''welcome''}" by simp
  have ke: "fst ` set ?e \<subseteq> {''topk''}" by simp
  have kf: "fst ` set ?f \<subseteq> {''temperature''}" by simp
  have kg: "fst ` set ?g \<subseteq> {''is_public''}" by simp
  have 1: "put_str ''name'' name [] = ?a"
    by (simp add: put_str_fresh)
  have 2: "put_str ''model'' model ?a = ?a @ ?b"
    by (rule put_str_fresh) (use ka in auto)
  have 3: "put_str ''prompt'' prompt (?a @ ?b) = (?a @ ?b) @ ?c"
    by (rule put_str_fresh) (use ka kb in auto)
  have 4: "put_str ''welcome'' welcome ((?a @ ?b) @ ?c) = ((?a @ ?b) @ ?c) @ ?d"
    by (rule put_str_fresh) (use ka kb kc in auto)
  have 5: "put_int ''topk'' topk (((?a @ ?b) @ ?c) @ ?d) = (((?a @ ?b) @ ?c) @ ?d) @ ?e"
    by (rule put_int_fresh) (use ka kb kc kd in auto)
  have 6: "put_int ''temperature'' temperature ((((?a @ ?b) @ ?c) @ ?d) @ ?e)
             = ((((?a @ ?b) @ ?c) @ ?d) @ ?e) @ ?f"
    by (rule put_int_fresh) (use ka kb kc kd ke in auto)
  have 7: "put_bool ''is_public'' is_public (((((?a @ ?b) @ ?c) @ ?d) @ ?e) @ ?f)
             = (((((?a @ ?b) @ ?c) @ ?d) @ ?e) @ ?f) @ ?g"
    by (rule put_bool_fresh) (use ka kb kc kd ke kf in auto)
  have 8: "put_str ''pincode'' pincode ((((((?a @ ?b) @ ?c) @ ?d) @ ?e) @ ?f) @ ?g)
             = ((((((?a @ ?b) @ ?c) @ ?d) @ ?e) @ ?f) @ ?g) @ ?h"
    by (rule put_str_fresh) (use ka kb kc kd ke kf kg in auto)
  show ?thesis
    unfolding update_agent_payload_def Let_def 1 2 3 4 5 6 7 8 by (simp only: append_assoc)
qed

lemma absent_key: "k \<noteq> k' \<Longrightarrow> (k \<in> fst ` set (if c then [] else [(k', v)])) = False"
  by simp

text \<open>
  C9.  \<open>update_agent\<close> leaves out of the payload every optional parameter that is
  falsy (\<open>None\<close>, the empty string, 0, \<open>False\<close>).  A call whose optional parameters are
  all falsy, such as \<open>is_public=False\<close> or \<open>topk=0\<close> alone, raises \<open>ValueError\<close> and
  leaves the state as it was, so no request is issued; the message is the one of line
  256 when \<open>agent_id\<close> is not empty (an empty \<open>agent_id\<close> is refused first, at line 235).
  When a request is issued, its data is the serialised payload.
\<close>

theorem update_agent_omits_falsy:
  fixes E :: "('x, 'r, 'a, 'd) env"
  shows
  "(name \<in> {None, Some []} \<longrightarrow>
      ''name'' \<notin> fst ` set (update_agent_payload name model prompt welcome topk temperature is_public pincode)) \<and>
   (model \<in> {None, Some []} \<longrightarrow>
      ''model'' \<notin> fst ` set (update_agent_payload name model prompt welcome topk temperature is_public pincode)) \<and>
   (prompt \<in> {None, Some []} \<longrightarrow>
      ''prompt'' \<notin> fst ` set (update_agent_payload name model prompt welcome topk temperature is_public pincode)) \<and>
   (welcome \<in> {None, Some []} \<longrightarrow>
      ''welcome'' \<notin> fst ` set (update_agent_payload name model prompt welcome topk temperature is_public pincode)) \<and>
   (topk \<in> {None, Some 0} \<longrightarrow>
      ''topk'' \<notin> fst ` set (update_agent_payload name model prompt welcome topk temperature is_public pincode)) \<and>
   (temperature \<in> {None, Some 0} \<longrightarrow>
      ''temperature'' \<notin> fst ` set (update_agent_payload name model prompt welcome topk temperature is_public pincode)) \<and>
   (is_public \<in> {None, Some False} \<longrightarrow>
      ''is_public'' \<notin> fst ` set (update_agent_payload name model prompt welcome topk temperature is_public pincode)) \<and>
   (pincode \<in> {None, Some []} \<longrightarrow>
      ''pincode'' \<notin> fst ` set (update_agent_payload name model prompt welcome topk temperature is_public pincode)) \<and>
   (name \<in> {None, Some []} \<and> model \<in> {None, Some []} \<and> prompt \<in> {None, Some []} \<and>
    welcome \<in> {None, Some []} \<and> topk \<in> {None, Some 0} \<and> temperature \<in> {None, Some 0} \<and>
    is_public \<in> {None, Some False} \<and> pincode \<in> {None, Some []} \<longrightarrow>
      (\<exists>msg. update_agent E st agent_id name model prompt welcome topk temperature is_public pincode
               = (st, Inl (ValueError msg))) \<and>
      (agent_id \<noteq> [] \<longrightarrow>
         update_agent E st agent_id name model prompt welcome topk temperature is_public pincode
           = (st, Inl (ValueError ''JUDINI: At least one parameter should be provided'')))) \<and>
   (agent_id \<noteq> [] \<and>
    update_agent_payload name model prompt welcome topk temperature is_public pincode \<noteq> [] \<longrightarrow>
      map req_data (sent (fst (update_agent E st agent_id name model prompt welcome topk temperature
                                 is_public pincode)))
        = map req_data (sent st)
          @ [Some (json_dumps (JObject (update_agent_payload name model prompt welcome topk
                                          temperature is_public pincode)))])"
proof -
  let ?P = "update_agent_payload name model prompt welcome topk temperature is_public pincode"
  have keys: "name \<in> {None, Some []} \<longrightarrow> ''name'' \<notin> fst ` set ?P"
    "model \<in> {None, Some []} \<longrightarrow> ''model'' \<notin> fst ` set ?P"
    "prompt \<in> {None, Some []} \<longrightarrow> ''prompt'' \<notin> fst ` set ?P"
    "welcome \<in> {None, Some []} \<longrightarrow> ''welcome'' \<notin> fst ` set ?P"
    "topk \<in> {None, Some 0} \<longrightarrow> ''topk'' \<notin> fst ` set ?P"
    "temperature \<in> {None, Some 0} \<longrightarrow> ''temperature'' \<notin> fst ` set ?P"
    "is_public \<in> {None, Some False} \<longrightarrow> ''is_public'' \<notin> fst ` set ?P"
    "pincode \<in> {None, Some []} \<longrightarrow> ''pincode'' \<notin> fst ` set ?P"
    unfolding update_agent_payload_eq
    by (simp_all add: absent_key image_Un split del: if_split)
  have empty: "name \<in> {None, Some []} \<and> model \<in> {None, Some []} \<and> prompt \<in> {None, Some []} \<and>
    welcome \<in> {None, Some []} \<and> topk \<in> {None, Some 0} \<and> temperature \<in> {None, Some 0} \<and>
    is_public \<in> {None, Some False} \<and> pincode \<in> {None, Some []} \<longrightarrow> ?P = []"
    unfolding update_agent_payload_eq by simp
  have raises: "?P = [] \<longrightarrow>
      (\<exists>msg. update_agent E st agent_id name model prompt welcome topk temperature is_public pincode
               = (st, Inl (ValueError msg))) \<and>
      (agent_id \<noteq> [] \<longrightarrow>
         update_agent E st agent_id name model prompt welcome topk temperature is_public pincode
           = (st, Inl (ValueError ''JUDINI: At least one parameter should be provided'')))"
    by (simp add: update_agent_def Let_def)
  have sends: "agent_id \<noteq> [] \<and> ?P \<noteq> [] \<longrightarrow>
      map req_data (sent (fst (update_agent E st agent_id name model prompt welcome topk temperature
                                 is_public pincode)))
        = map req_data (sent st) @ [Some (json_dumps (JObject ?P))]"
    by (simp add: update_agent_def Let_def requests_patch_def send_def split: prod.splits)
  have falsy: "name \<in> {None, Some []} \<and> model \<in> {None, Some []} \<and> prompt \<in> {None, Some []} \<and>
    welcome \<in> {None, Some []} \<and> topk \<in> {None, Some 0} \<and> temperature \<in> {None, Some 0} \<and>
    is_public \<in> {None, Some False} \<and> pincode \<in> {None, Some []} \<longrightarrow>
      (\<exists>msg. update_agent E st agent_id name model prompt welcome topk temperature is_public pincode
               = (st, Inl (ValueError msg))) \<and>
      (agent_id \<noteq> [] \<longrightarrow>
         update_agent E st agent_id name model prompt welcome topk temperature is_public pincode
           = (st, Inl (ValueError ''JUDINI: At least one parameter should be provided'')))"
    by (rule impI) (rule mp [OF raises], rule mp [OF empty])
  show ?thesis
    by (intro conjI) (rule keys falsy sends)+
qed

theorem update_agent_omits_falsy_witness:
  "update_agent (example_env \<lparr>status_code = 200, resp_text = ''{}''\<rparr>) example_state ''agent''
     None (Some []) None None (Some 0) None (Some False) None
     = (example_state, Inl (ValueError ''JUDINI: At least one parameter should be provided'')) \<and>
   ''topk'' \<notin> fst ` set (update_agent_payload (Some ''Ada'') None None None (Some 0) None
                              (Some False) None) \<and>
   ''is_public'' \<notin> fst ` set (update_agent_payload (Some ''Ada'') None None None (Some 0) None
                              (Some False) None) \<and>
   map req_data (sent (fst (update_agent (example_env \<lparr>status_code = 200, resp_text = ''{}''\<rparr>)
                              example_state ''agent'' (Some ''Ada'') None None None (Some 0) None
                              (Some False) None)))
     = [Some ''{\"name\": \"Ada\"}'']"
proof -
  have a: "update_agent_payload (Some ''Ada'') None None None (Some 0) None (Some False) None
             = [(''name'', JString ''Ada'')]"
    by (simp add: update_agent_payload_eq)
  from update_agent_omits_falsy [of None "Some []" None None "Some 0" None "Some False" None
      "example_env \<lparr>status_code = 200, resp_text = ''{}''\<rparr>" example_state "''agent''"]
  have 1: "update_agent (example_env \<lparr>status_code = 200, resp_text = ''{}''\<rparr>) example_state
      ''agent'' None (Some []) None None (Some 0) None (Some False) None
     = (example_state, Inl (ValueError ''JUDINI: At least one parameter should be provided''))"
    by simp
  from update_agent_omits_falsy [of "Some ''Ada''" None None None "Some 0" None "Some False" None
      "example_env \<lparr>status_code = 200, resp_text = ''{}''\<rparr>" example_state "''agent''"]
  have 2: "''topk'' \<notin> fst ` set (update_agent_payload (Some ''Ada'') None None None (Some 0) None
                              (Some False) None)"
    and 3: "''is_public'' \<notin> fst ` set (update_agent_payload (Some ''Ada'') None None None (Some 0)
                              None (Some False) None)"
    and 4: "map req_data (sent (fst (update_agent (example_env \<lparr>status_code = 200, resp_text = ''{}''\<rparr>)
                              example_state ''agent'' (Some ''Ada'') None None None (Some 0) None
                              (Some False) None)))
     = [Some ''{\"name\": \"Ada\"}'']"
    by (simp_all add: a example_state_def encode_string_def escape_char_def)
  from 1 2 3 4 show ?thesis by simp
qed

section \<open>\<open>self.headers\<close> is never mutated\<close>

lemma unchanged_refl: "headers st < length (heap st) \<Longrightarrow> unchanged st st"
  by (simp add: unchanged_def)

lemma unchanged_trans: "unchanged st st' \<Longrightarrow> unchanged st' st'' \<Longrightarrow> unchanged st st''"
  by (auto simp add: unchanged_def)

lemma unchanged_send:
  "headers st < length (heap st) \<Longrightarrow> send E st req = (r, st') \<Longrightarrow> unchanged st st'"
  by (auto simp add: unchanged_def send_def)

lemma unchanged_get:
  "headers st < length (heap st) \<Longrightarrow> requests_get E st u h = (r, st') \<Longrightarrow> unchanged st st'"
  by (simp add: requests_get_def unchanged_send)

lemma unchanged_delete:
  "headers st < length (heap st) \<Longrightarrow> requests_delete E st u h = (r, st') \<Longrightarrow> unchanged st st'"
  by (simp add: requests_delete_def unchanged_send)

lemma unchanged_patch:
  "headers st < length (heap st) \<Longrightarrow> requests_patch E st u h d = (r, st') \<Longrightarrow> unchanged st st'"
  by (simp add: requests_patch_def unchanged_send)

lemma unchanged_post:
  "headers st < length (heap st) \<Longrightarrow> requests_post E st u h d f s = (r, st') \<Longrightarrow> unchanged st st'"
  by (simp add: requests_post_def unchanged_send)

lemma unchanged_printed:
  "unchanged st st' \<Longrightarrow> unchanged st (st'\<lparr>printed := p\<rparr>)"
  by (auto simp add: unchanged_def)

text \<open>The copy is a new object: its reference is not the one of \<open>self.headers\<close>.\<close>

lemma unchanged_copy:
  assumes "headers st < length (heap st)" "dict_copy st a = (h, st1)"
  shows "unchanged st st1 \<and> h \<noteq> headers st1 \<and> h < length (heap st1)"
  using assms by (auto simp add: dict_copy_def dict_new_def unchanged_def nth_append)

lemma unchanged_setitem:
  assumes "unchanged st st1" "h \<noteq> headers st1"
  shows "unchanged st (dict_setitem st1 h k v)"
  using assms by (auto simp add: dict_setitem_def unchanged_def)

lemma unchanged_delitem:
  assumes "unchanged st st1" "h \<noteq> headers st1" "dict_delitem st1 h k = Inr st2"
  shows "unchanged st st2"
  using assms by (auto simp add: dict_delitem_def unchanged_def split: if_splits)

lemma unchanged_chat_completion:
  assumes "headers st < length (heap st)"
  shows "unchanged st (fst (chat_completion E st agent_id messages stream format))"
proof -
  obtain h st1 where c: "dict_copy st (headers st) = (h, st1)"
    by (cases "dict_copy st (headers st)")
  from unchanged_copy [OF assms c]
  have 1: "unchanged st st1" and 2: "h \<noteq> headers st1" by simp_all
  let ?st2 = "dict_setitem st1 h ''media_type'' ''text/event-stream''"
  have 3: "unchanged st ?st2" by (rule unchanged_setitem [OF 1 2])
  then have "headers ?st2 < length (heap ?st2)" by (simp add: unchanged_def)
  then have "\<And>u d f s r st3. requests_post E ?st2 u h d f s = (r, st3) \<Longrightarrow> unchanged ?st2 st3"
    by (rule unchanged_post)
  then have 4: "\<And>u d f s r st3. requests_post E ?st2 u h d f s = (r, st3) \<Longrightarrow> unchanged st st3"
    by (rule unchanged_trans [OF 3])
  show ?thesis
    using unchanged_refl [OF assms] 4
    by (auto simp add: chat_completion_def c Let_def split: prod.splits)
qed

lemma unchanged_upload_document:
  assumes "headers st < length (heap st)"
  shows "unchanged st (fst (upload_document E st file_path))"
proof -
  obtain h st1 where c: "dict_copy st (headers st) = (h, st1)"
    by (cases "dict_copy st (headers st)")
  from unchanged_copy [OF assms c]
  have 1: "unchanged st st1" and 2: "h \<noteq> headers st1" by simp_all
  have 3: "\<And>st2 u d f s r st3. dict_delitem st1 h ''Content-Type'' = Inr st2 \<Longrightarrow>
             requests_post E st2 u h d f s = (r, st3) \<Longrightarrow> unchanged st st3"
  proof -
    fix st2 u d f s r st3
    assume "dict_delitem st1 h ''Content-Type'' = Inr st2"
      and p: "requests_post E st2 u h d f s = (r, st3)"
    then have a: "unchanged st st2" by (simp add: unchanged_delitem [OF 1 2])
    then have "headers st2 < length (heap st2)" by (simp add: unchanged_def)
    then have "unchanged st2 st3" using p by (rule unchanged_post)
    with a show "unchanged st st3" by (rule unchanged_trans)
  qed
  have 4: "\<And>st2. dict_delitem st1 h ''Content-Type'' = Inr st2 \<Longrightarrow> unchanged st st2"
    by (simp add: unchanged_delitem [OF 1 2])
  show ?thesis
    using unchanged_refl [OF assms] 1 3 4
    by (auto simp add: upload_document_def c Let_def split: prod.splits sum.splits)
qed

lemma unchanged_run_call:
  assumes "headers st < length (heap st)"
  shows "unchanged st (run_call E st c)"
proof (cases c)
  case (ChatCompletion a ms s f)
  then show ?thesis by (simp add: unchanged_chat_completion [OF assms])
next
  case GetAgents
  then show ?thesis
    using unchanged_get [OF assms, of E] unchanged_refl [OF assms]
    by (auto simp add: get_agents_def Let_def split: prod.splits)
next
  case (GetAgent a)
  then show ?thesis
    using unchanged_get [OF assms, of E] unchanged_refl [OF assms]
    by (auto simp add: get_agent_def Let_def split: prod.splits)
next
  case (CreateAgent n m p w k t)
  then show ?thesis
    using unchanged_post [OF assms, of E] unchanged_refl [OF assms]
    by (auto simp add: create_agent_def Let_def split: prod.splits)
next
  case (UpdateAgent a n m p w k t i c)
  then show ?thesis
    using unchanged_patch [OF assms, of E] unchanged_refl [OF assms]
    by (auto simp add: update_agent_def Let_def split: prod.splits)
next
  case (DeleteAgent a)
  then show ?thesis
    using unchanged_delete [OF assms, of E] unchanged_refl [OF assms]
    by (auto simp add: delete_agent_def Let_def unchanged_printed split: prod.splits)
next
  case (UpdateAgentDocuments a ds)
  then show ?thesis
    by (simp add: update_agent_documents_def unchanged_refl [OF assms])
next
  case GetDocuments
  then show ?thesis
    using unchanged_get [OF assms, of E] unchanged_refl [OF assms]
    by (auto simp add: get_documents_def Let_def split: prod.splits)
next
  case (GetDocument d)
  then show ?thesis
    using unchanged_get [OF assms, of E] unchanged_refl [OF assms]
    by (auto simp add: get_document_def Let_def split: prod.splits)
next
  case (UpdateDocumentMetadata d t de s k l)
  then show ?thesis
    by (simp add: update_document_metadata_def unchanged_refl [OF assms])
next
  case (UploadDocument p)
  then show ?thesis by (simp add: unchanged_upload_document [OF assms])
next
  case (DeleteDocument d)
  then show ?thesis
    using unchanged_delete [OF assms, of E] unchanged_refl [OF assms]
    by (auto simp add: delete_document_def Let_def unchanged_printed split: prod.splits)
qed

lemma unchanged_run_calls:
  "headers st < length (heap st) \<Longrightarrow> unchanged st (run_calls E st cs)"
proof (induction cs arbitrary: st)
  case Nil
  then show ?case by (simp add: run_calls_def unchanged_refl)
next
  case (Cons c cs)
  have 1: "unchanged st (run_call E st c)" by (rule unchanged_run_call [OF Cons.prems])
  then have "headers (run_call E st c) < length (heap (run_call E st c))"
    by (simp add: unchanged_def)
  then have "unchanged (run_call E st c) (run_calls E (run_call E st c) cs)"
    by (rule Cons.IH)
  with 1 show ?case by (simp add: run_calls_def unchanged_trans)
qed

lemma init_headers:
  assumes "CodeGPTPlus_init E w api_key org_id = Inr st0"
  shows "headers st0 < length (heap st0)"
  using assms
  by (auto simp add: CodeGPTPlus_init_def Let_def dict_new_def dict_setitem_def
      world.extend_def state.fields_def split: if_splits)

text \<open>
  C10.  After \<open>__init__\<close>, whatever calls are made and whether they return or raise,
  \<open>self.headers\<close> is the same reference and the dictionary it points to has its
  constructor-time content.  \<open>chat_completion\<close> and \<open>upload_document\<close> write to the copy,
  a different object of the store; no other method writes to a dictionary.
\<close>

theorem headers_never_mutated:
  assumes "CodeGPTPlus_init E w api_key org_id = Inr st0"
  shows "headers (run_calls E st0 cs) = headers st0 \<and>
         deref (run_calls E st0 cs) (headers (run_calls E st0 cs)) = deref st0 (headers st0)"
proof -
  have 0: "headers st0 < length (heap st0)" by (rule init_headers [OF assms])
  from unchanged_run_calls [OF 0] have "unchanged st0 (run_calls E st0 cs)" .
  with 0 show ?thesis by (auto simp add: unchanged_def deref_def)
qed

theorem headers_never_mutated_witness:
  "headers (run_calls (example_env \<lparr>status_code = 200, resp_text = ''{}''\<rparr>) example_state
              [ChatCompletion ''agent'' hello False ''text'', UploadDocument ''/tmp/notes.txt''])
     = headers example_state \<and>
   deref (run_calls (example_env \<lparr>status_code = 200, resp_text = ''{}''\<rparr>) example_state
            [ChatCompletion ''agent'' hello False ''text'', UploadDocument ''/tmp/notes.txt''])
         (headers (run_calls (example_env \<lparr>status_code = 200, resp_text = ''{}''\<rparr>) example_state
            [ChatCompletion ''agent'' hello False ''text'', UploadDocument ''/tmp/notes.txt'']))
     = deref example_state (headers example_state) \<and>
   deref example_state (headers example_state)
     = [(''Content-Type'', ''application/json''), (''Authorization'', ''Bearer key'')] \<and>
   map req_headers
     (sent (run_calls (example_env \<lparr>status_code = 200, resp_text = ''{}''\<rparr>) example_state
              [ChatCompletion ''agent'' hello False ''text'', UploadDocument ''/tmp/notes.txt'']))
     = [[(''Content-Type'', ''application/json''), (''Authorization'', ''Bearer key''),
         (''media_type'', ''text/event-stream'')],
        [(''Authorization'', ''Bearer key'')]]"
proof -
  let ?E = "example_env \<lparr>status_code = 200, resp_text = ''{}''\<rparr>"
  let ?cs = "[ChatCompletion ''agent'' hello False ''text'', UploadDocument ''/tmp/notes.txt'']"
  have 1: "headers (run_calls ?E example_state ?cs) = headers example_state \<and>
           deref (run_calls ?E example_state ?cs) (headers (run_calls ?E example_state ?cs))
             = deref example_state (headers example_state)"
    by (rule headers_never_mutated) (rule init_example)
  have 2: "deref example_state (headers example_state)
     = [(''Content-Type'', ''application/json''), (''Authorization'', ''Bearer key'')]"
    by (simp add: deref_def example_state_def)
  have h: "hello \<noteq> []" by (simp add: hello_def)
  have 3: "fst (chat_completion ?E example_state ''agent'' hello False ''text'') =
      example_state\<lparr>heap := heap example_state @
          [[(''Content-Type'', ''application/json''), (''Authorization'', ''Bearer key''),
            (''media_type'', ''text/event-stream'')]],
        sent := [\<lparr>req_verb = POST, req_url = base_url @ ''/chat/completions'',
                  req_headers = [(''Content-Type'', ''application/json''),
                                 (''Authorization'', ''Bearer key''),
                                 (''media_type'', ''text/event-stream'')],
                  req_data = Some (json_dumps (chat_payload ''agent'' hello False)),
                  req_files = None, req_stream = False\<rparr>]\<rparr>"
    using h by (simp add: chat_completion_valid Let_def deref_def example_state_def)
  have 4: "map req_headers (sent (run_calls ?E example_state ?cs))
     = [[(''Content-Type'', ''application/json''), (''Authorization'', ''Bearer key''),
         (''media_type'', ''text/event-stream'')],
        [(''Authorization'', ''Bearer key'')]]"
    by (simp add: run_calls_def 3)
       (auto simp add: upload_document_def example_env_def example_state_def dict_copy_def
          dict_new_def dict_delitem_def deref_def requests_post_def send_def Let_def lift_def
          image_iff)
  from 1 2 4 show ?thesis by blast
qed

section \<open>Properties of the response decoder\<close>

lemma iter_lines_line:
  "CHR 0x0A \<notin> set l \<Longrightarrow> iter_lines (l @ CHR 0x0A # rest) = l # iter_lines rest"
  by (induction l) auto

lemma iter_lines_frame:
  "CHR 0x0A \<notin> set p \<Longrightarrow> iter_lines (frame p @ rest) = (''data: '' @ p) # [] # iter_lines rest"
proof -
  assume "CHR 0x0A \<notin> set p"
  then have "CHR 0x0A \<notin> set (''data: '' @ p)" by simp
  then have "iter_lines ((''data: '' @ p) @ CHR 0x0A # (CHR 0x0A # rest))
               = (''data: '' @ p) # iter_lines (CHR 0x0A # rest)"
    by (rule iter_lines_line)
  then show ?thesis by (simp add: frame_def)
qed

lemma data_value_data: "data_value (CHR ''d'' # CHR ''a'' # CHR ''t'' # CHR ''a'' # CHR '':'' # CHR '' '' # p) = Some p"
  by (simp add: data_value_def)

lemma on_line_blank: "on_line W fmt [] = AWAITING_FRAME"
  by (simp add: on_line_def data_value_def)

lemma classify_content: "content_payload W p v t \<Longrightarrow> classify W p = Content v t"
  by (auto simp add: content_payload_def classify_def)

lemma classify_error: "error_payload W p m \<Longrightarrow> classify W p = Error m"
  by (auto simp add: error_payload_def classify_def)

lemma classify_malformed:
  assumes "malformed W p"
  shows "classify W p = Unrecognized"
proof (cases "loads W p")
  case None
  with assms show ?thesis by (simp add: malformed_def classify_def)
next
  case (Some v)
  show ?thesis
  proof (cases v)
    case (JObject kvs)
    with assms Some have e: "map_of kvs (error_field W) = None"
      and d: "(case map_of kvs (delta_field W) of Some (JString t) \<Rightarrow> False | _ \<Rightarrow> True)"
      and n: "p \<noteq> ''[DONE]''"
      by (simp_all add: malformed_def)
    from d have "(case map_of kvs (delta_field W) of Some (JString t) \<Rightarrow> Content (JObject kvs) t
                   | _ \<Rightarrow> Unrecognized) = Unrecognized"
      by (cases "map_of kvs (delta_field W)") (simp_all split: json.splits)
    with Some JObject e n show ?thesis by (simp add: classify_def)
  qed (use assms Some in \<open>simp_all add: malformed_def classify_def\<close>)
qed

lemma decode_content_frame:
  assumes "content_payload W p v t"
  shows "decode_lines W fmt (iter_lines (frame p @ rest)) =
           (chunk_of fmt v t # fst (decode_lines W fmt (iter_lines rest)),
            snd (decode_lines W fmt (iter_lines rest)))"
proof -
  from assms have nl: "CHR 0x0A \<notin> set p" by (simp add: content_payload_def)
  have "on_line W fmt (''data: '' @ p) = EMIT_CHUNK (chunk_of fmt v t)"
    by (simp add: on_line_def data_value_data classify_content [OF assms] chunk_of_def)
  then show ?thesis
    by (simp add: iter_lines_frame [OF nl] on_line_blank split: prod.splits)
qed

lemma decode_error_frame:
  assumes "error_payload W e m"
  shows "decode_lines W fmt (iter_lines (frame e @ rest)) = ([], FAILED (StreamError m))"
proof -
  from assms have nl: "CHR 0x0A \<notin> set e" by (simp add: error_payload_def)
  have "on_line W fmt (''data: '' @ e) = FAILED (StreamError m)"
    by (simp add: on_line_def data_value_data classify_error [OF assms])
  then show ?thesis
    by (simp add: iter_lines_frame [OF nl])
qed

lemma decode_malformed_frame:
  assumes "malformed W b" "CHR 0x0A \<notin> set b"
  shows "decode_lines W fmt (iter_lines (frame b @ rest)) = decode_lines W fmt (iter_lines rest)"
proof -
  have "on_line W fmt (''data: '' @ b) = AWAITING_FRAME"
    by (simp add: on_line_def data_value_data classify_malformed [OF assms(1)])
  then show ?thesis
    by (simp add: iter_lines_frame [OF assms(2)] on_line_blank)
qed

lemma decode_content_frames:
  assumes "list_all (\<lambda>f. content_payload W (fst f) (fst (snd f)) (snd (snd f))) fs"
  shows "decode_lines W fmt (iter_lines (concat (map (\<lambda>f. frame (fst f)) fs) @ rest)) =
           (map (\<lambda>f. chunk_of fmt (fst (snd f)) (snd (snd f))) fs
              @ fst (decode_lines W fmt (iter_lines rest)),
            snd (decode_lines W fmt (iter_lines rest)))"
  using assms
proof (induction fs)
  case Nil
  then show ?case by simp
next
  case (Cons f fs)
  from Cons.prems have c: "content_payload W (fst f) (fst (snd f)) (snd (snd f))"
    and r: "list_all (\<lambda>f. content_payload W (fst f) (fst (snd f)) (snd (snd f))) fs"
    by simp_all
  have "decode_lines W fmt (iter_lines (frame (fst f) @ (concat (map (\<lambda>f. frame (fst f)) fs) @ rest)))
      = (chunk_of fmt (fst (snd f)) (snd (snd f))
           # fst (decode_lines W fmt (iter_lines (concat (map (\<lambda>f. frame (fst f)) fs) @ rest))),
         snd (decode_lines W fmt (iter_lines (concat (map (\<lambda>f. frame (fst f)) fs) @ rest))))"
    by (rule decode_content_frame [OF c])
  then show ?case
    by (simp add: Cons.IH [OF r])
qed

text \<open>
  C1.  A streamed body of N well-formed content frames (each a payload \<open>p\<close> with its
  parsed value \<open>v\<close> and its delta \<open>t\<close>), then an in-band error frame, then anything at
  all: the streaming decode yields the N chunks of the content frames in arrival order
  and ends in \<open>FAILED\<close> with the \<open>StreamError\<close> that carries the server's message.
  Nothing of what follows the error frame is yielded.
\<close>

theorem stream_decode_error_after_chunks:
  assumes "list_all (\<lambda>f. content_payload W (fst f) (fst (snd f)) (snd (snd f))) fs"
    and "error_payload W e m"
    and "resp_text response = concat (map (\<lambda>f. frame (fst f)) fs) @ frame e @ rest"
  shows "stream_decode W response fmt =
           Streamed (map (\<lambda>f. chunk_of fmt (fst (snd f)) (snd (snd f))) fs)
             (FAILED (StreamError m)) \<and>
         length (map (\<lambda>f. chunk_of fmt (fst (snd f)) (snd (snd f))) fs) = length fs"
proof -
  have "decode_lines W fmt (iter_lines (concat (map (\<lambda>f. frame (fst f)) fs) @ (frame e @ rest)))
      = (map (\<lambda>f. chunk_of fmt (fst (snd f)) (snd (snd f))) fs
              @ fst (decode_lines W fmt (iter_lines (frame e @ rest))),
            snd (decode_lines W fmt (iter_lines (frame e @ rest))))"
    by (rule decode_content_frames [OF assms(1)])
  then show ?thesis
    by (simp add: stream_decode_def assms(3) decode_error_frame [OF assms(2)])
qed

text \<open>
  C3.  A body of a valid content frame, a malformed frame (a payload that is not JSON,
  or JSON without the expected keys) and a second valid content frame: the streaming
  decode yields the two chunks of the valid frames and ends normally.
\<close>

theorem stream_decode_skips_malformed:
  assumes "content_payload W p1 v1 t1" "content_payload W p2 v2 t2"
    and "malformed W b" "CHR 0x0A \<notin> set b"
    and "resp_text response = frame p1 @ frame b @ frame p2"
  shows "stream_decode W response fmt = Streamed [chunk_of fmt v1 t1, chunk_of fmt v2 t2] DONE"
proof -
  have 3: "decode_lines W fmt (iter_lines (frame p2 @ [])) = ([chunk_of fmt v2 t2], DONE)"
    by (simp only: decode_content_frame [OF assms(2)]) simp
  have 2: "decode_lines W fmt (iter_lines (frame b @ frame p2)) = ([chunk_of fmt v2 t2], DONE)"
    using 3 by (simp only: decode_malformed_frame [OF assms(3,4)]) simp
  have 1: "decode_lines W fmt (iter_lines (frame p1 @ frame b @ frame p2))
             = ([chunk_of fmt v1 t1, chunk_of fmt v2 t2], DONE)"
    by (simp only: decode_content_frame [OF assms(1)] 2) simp
  show ?thesis
    by (simp add: stream_decode_def assms(5) 1)
qed

text \<open>
  C4.  The non-streaming decode, on every body and for both formats.  A body is well
  formed when the reader gives a JSON object with a string under the answer field:
  then \<open>format=text\<close> returns exactly that string and \<open>format=json\<close> the whole parsed
  value unchanged.  The decode succeeds on no other body: a body that is not JSON, a
  JSON value that is not an object, an object without the answer field and an object
  whose answer is not a string each fail, for either format, with the \<open>DecodeError\<close>
  that holds the raw body.
\<close>

theorem non_stream_decode_contract:
  "(loads W (resp_text response) = Some (JObject kvs) \<and>
    map_of kvs (answer_field W) = Some (JString t) \<longrightarrow>
      non_stream_decode W response Text = Inr (Whole (AggregateText t)) \<and>
      non_stream_decode W response Json = Inr (Whole (AggregateJson (JObject kvs)))) \<and>
   ((\<exists>r. non_stream_decode W response fmt = Inr r) \<longleftrightarrow>
      (\<exists>kvs t. loads W (resp_text response) = Some (JObject kvs) \<and>
              map_of kvs (answer_field W) = Some (JString t))) \<and>
   ((\<nexists>kvs t. loads W (resp_text response) = Some (JObject kvs) \<and>
             map_of kvs (answer_field W) = Some (JString t)) \<longrightarrow>
      non_stream_decode W response fmt = Inl (DecodeError (resp_text response))) \<and>
   (loads W (resp_text response) = None \<longrightarrow>
      non_stream_decode W response fmt = Inl (DecodeError (resp_text response))) \<and>
   (loads W (resp_text response) = Some v \<and> (\<nexists>kvs. v = JObject kvs) \<longrightarrow>
      non_stream_decode W response fmt = Inl (DecodeError (resp_text response))) \<and>
   (loads W (resp_text response) = Some (JObject kvs) \<and> map_of kvs (answer_field W) = None \<longrightarrow>
      non_stream_decode W response fmt = Inl (DecodeError (resp_text response))) \<and>
   (loads W (resp_text response) = Some (JObject kvs) \<and> map_of kvs (answer_field W) = Some a \<and>
    (\<nexists>t. a = JString t) \<longrightarrow>
      non_stream_decode W response fmt = Inl (DecodeError (resp_text response)))"
proof -
  let ?wf = "\<exists>kvs t. loads W (resp_text response) = Some (JObject kvs) \<and>
                    map_of kvs (answer_field W) = Some (JString t)"
  let ?err = "non_stream_decode W response fmt = Inl (DecodeError (resp_text response))"
  have ok: "\<And>kvs t f. loads W (resp_text response) = Some (JObject kvs) \<Longrightarrow>
      map_of kvs (answer_field W) = Some (JString t) \<Longrightarrow>
      non_stream_decode W response f
        = Inr (Whole (case f of Text \<Rightarrow> AggregateText t | Json \<Rightarrow> AggregateJson (JObject kvs)))"
    by (simp add: non_stream_decode_def answer_text_def)
  have answer: "\<And>v. answer_text W v = None \<or>
      (\<exists>kvs t. v = JObject kvs \<and> map_of kvs (answer_field W) = Some (JString t))"
  proof -
    fix v
    show "answer_text W v = None \<or>
      (\<exists>kvs t. v = JObject kvs \<and> map_of kvs (answer_field W) = Some (JString t))"
    proof (cases v)
      case (JObject kvs)
      show ?thesis
      proof (cases "map_of kvs (answer_field W)")
        case None
        with JObject show ?thesis by (simp add: answer_text_def)
      next
        case (Some a)
        with JObject show ?thesis by (cases a) (simp_all add: answer_text_def)
      qed
    qed (simp_all add: answer_text_def)
  qed
  have bad: "\<not> ?wf \<Longrightarrow> ?err"
  proof (cases "loads W (resp_text response)")
    case None
    then show ?thesis by (simp add: non_stream_decode_def)
  next
    case (Some v)
    assume "\<not> ?wf"
    with Some answer [of v] have "answer_text W v = None" by auto
    with Some show ?thesis by (simp add: non_stream_decode_def)
  qed
  have 1: "loads W (resp_text response) = Some (JObject kvs) \<and>
      map_of kvs (answer_field W) = Some (JString t) \<longrightarrow>
      non_stream_decode W response Text = Inr (Whole (AggregateText t)) \<and>
      non_stream_decode W response Json = Inr (Whole (AggregateJson (JObject kvs)))"
    by (simp add: ok)
  have 2: "(\<exists>r. non_stream_decode W response fmt = Inr r) \<longleftrightarrow> ?wf"
  proof
    assume succeeds: "\<exists>r. non_stream_decode W response fmt = Inr r"
    show ?wf
    proof (rule ccontr)
      assume "\<not> ?wf"
      then have ?err by (rule bad)
      with succeeds show False by simp
    qed
  next
    assume ?wf
    then show "\<exists>r. non_stream_decode W response fmt = Inr r" using ok by blast
  qed
  have 3: "\<not> ?wf \<longrightarrow> ?err" by (rule impI, rule bad)
  have 4: "loads W (resp_text response) = None \<longrightarrow> ?err"
    by (rule impI, rule bad) simp
  have 5: "loads W (resp_text response) = Some v \<and> (\<nexists>kvs. v = JObject kvs) \<longrightarrow> ?err"
    by (rule impI, rule bad) auto
  have 6: "loads W (resp_text response) = Some (JObject kvs) \<and>
      map_of kvs (answer_field W) = None \<longrightarrow> ?err"
    by (rule impI, rule bad) auto
  have 7: "loads W (resp_text response) = Some (JObject kvs) \<and>
      map_of kvs (answer_field W) = Some a \<and> (\<nexists>t. a = JString t) \<longrightarrow> ?err"
    by (rule impI, rule bad) auto
  show ?thesis
    by (intro conjI) (rule 1 2 3 4 5 6 7)+
qed

lemma decode_lines_text_chunks:
  "fst (decode_lines W Text ls) = map TextChunk (map chunk_text (fst (decode_lines W Text ls)))"
proof (induction ls)
  case Nil
  then show ?case by simp
next
  case (Cons l ls)
  show ?case
  proof (cases "on_line W Text l")
    case (EMIT_CHUNK c)
    then obtain t where "c = TextChunk t"
      by (auto simp add: on_line_def chunk_of_def split: option.splits event.splits)
    with EMIT_CHUNK Cons.IH show ?thesis
      by (auto split: prod.splits)
  qed (use Cons.IH in simp_all)
qed

lemma decode_lines_aggregate:
  "concat (map chunk_text (fst (decode_lines W Text ls)))
     = concat (map fragment (takeWhile (\<lambda>e. \<not> terminal e) (stream_events W ls)))"
proof (induction ls)
  case Nil
  then show ?case by (simp add: stream_events_def)
next
  case (Cons l ls)
  show ?case
  proof (cases "data_value l")
    case None
    with Cons.IH show ?thesis
      by (simp add: stream_events_def on_line_def List.map_filter_simps)
  next
    case (Some p)
    then have ev: "stream_events W (l # ls) = classify W p # stream_events W ls"
      by (simp add: stream_events_def List.map_filter_simps)
    show ?thesis
    proof (cases "classify W p")
      case (Content v t)
      with Some Cons.IH show ?thesis
        by (auto simp add: ev on_line_def chunk_of_def split: prod.splits)
    next
      case (Error m)
      with Some show ?thesis by (simp add: ev on_line_def)
    next
      case Done
      with Some show ?thesis by (simp add: ev on_line_def)
    next
      case Unrecognized
      with Some Cons.IH show ?thesis by (simp add: ev on_line_def)
    qed
  qed
qed

text \<open>
  C2.  For every streamed body, with \<open>format=text\<close> every yielded chunk is a text
  chunk, and their concatenation in order is the string that the non-streaming decode
  returns, with \<open>format=text\<close>, for a body that carries the same content: a JSON object
  whose answer field is the aggregate of the stream's message fragments.
\<close>

theorem stream_decode_concat_equals_non_stream:
  assumes "loads W (resp_text whole) = Some (JObject kvs)"
    and "map_of kvs (answer_field W) = Some (JString (aggregate_text W (resp_text streamed)))"
  shows "\<exists>cs s. stream_decode W streamed Text = Streamed cs s \<and>
           cs = map TextChunk (map chunk_text cs) \<and>
           non_stream_decode W whole Text
             = Inr (Whole (AggregateText (concat (map chunk_text cs))))"
proof -
  obtain cs s where d: "decode_lines W Text (iter_lines (resp_text streamed)) = (cs, s)"
    by (cases "decode_lines W Text (iter_lines (resp_text streamed))")
  from decode_lines_text_chunks [of W "iter_lines (resp_text streamed)"] d
  have 1: "cs = map TextChunk (map chunk_text cs)" by simp
  from decode_lines_aggregate [of W "iter_lines (resp_text streamed)"] d
  have 2: "concat (map chunk_text cs) = aggregate_text W (resp_text streamed)"
    by (simp add: aggregate_text_def)
  have 3: "non_stream_decode W whole Text
             = Inr (Whole (AggregateText (concat (map chunk_text cs))))"
    by (simp add: non_stream_decode_def answer_text_def assms 2)
  have 4: "stream_decode W streamed Text = Streamed cs s"
    by (simp add: stream_decode_def d)
  from 4 1 3 show ?thesis by blast
qed

section \<open>The decoder on the bodies of the spec's examples\<close>

lemma loads_examples:
  "json_loads ''{\"text\":\"Hel\"}'' = Some (JObject [(''text'', JString ''Hel'')])"
  "json_loads ''{\"text\":\"lo\"}'' = Some (JObject [(''text'', JString ''lo'')])"
  "json_loads ''{\"text\":\"Hello\"}'' = Some (JObject [(''text'', JString ''Hello'')])"
  "json_loads ''{\"error\":\"quota exceeded\"}'' = Some (JObject [(''error'', JString ''quota exceeded'')])"
  "json_loads ''{}'' = Some (JObject [])"
  "json_loads '': keep-alive'' = None"
  "json_loads ''[1, 2]'' = Some (JArray [JInt 1, JInt 2])"
  "json_loads ''{\"text\": 5}'' = Some (JObject [(''text'', JInt 5)])"
  by code_simp+

lemma content_examples:
  "content_payload example_wire ''{\"text\":\"Hel\"}'' (JObject [(''text'', JString ''Hel'')]) ''Hel''"
  "content_payload example_wire ''{\"text\":\"lo\"}'' (JObject [(''text'', JString ''lo'')]) ''lo''"
  by (simp_all add: content_payload_def example_wire_def loads_examples)

theorem stream_decode_error_after_chunks_witness:
  "stream_decode example_wire
     \<lparr>status_code = 200,
      resp_text = frame ''{\"text\":\"Hel\"}'' @ frame ''{\"text\":\"lo\"}''
                  @ frame ''{\"error\":\"quota exceeded\"}'' @ frame ''{\"text\":\"late\"}''\<rparr> Text
     = Streamed [TextChunk ''Hel'', TextChunk ''lo'']
         (FAILED (StreamError (JString ''quota exceeded'')))"
proof -
  let ?fs = "[(''{\"text\":\"Hel\"}'', JObject [(''text'', JString ''Hel'')], ''Hel''),
              (''{\"text\":\"lo\"}'', JObject [(''text'', JString ''lo'')], ''lo'')]"
  have 1: "list_all (\<lambda>f. content_payload example_wire (fst f) (fst (snd f)) (snd (snd f))) ?fs"
    by (simp add: content_examples)
  have 2: "error_payload example_wire ''{\"error\":\"quota exceeded\"}'' (JString ''quota exceeded'')"
    by (simp add: error_payload_def example_wire_def loads_examples)
  have 3: "resp_text \<lparr>status_code = 200,
      resp_text = frame ''{\"text\":\"Hel\"}'' @ frame ''{\"text\":\"lo\"}''
                  @ frame ''{\"error\":\"quota exceeded\"}'' @ frame ''{\"text\":\"late\"}''\<rparr>
     = concat (map (\<lambda>f. frame (fst f)) ?fs) @ frame ''{\"error\":\"quota exceeded\"}''
         @ frame ''{\"text\":\"late\"}''"
    by simp
  from stream_decode_error_after_chunks [OF 1 2 3, of Text]
  show ?thesis by (simp add: chunk_of_def)
qed

theorem stream_decode_skips_malformed_witness:
  "stream_decode example_wire
     \<lparr>status_code = 200,
      resp_text = frame ''{\"text\":\"Hel\"}'' @ frame '': keep-alive'' @ frame ''{\"text\":\"lo\"}''\<rparr>
     Text
     = Streamed [TextChunk ''Hel'', TextChunk ''lo''] DONE"
proof -
  have 3: "malformed example_wire '': keep-alive''"
    by (simp add: malformed_def example_wire_def loads_examples)
  have 4: "CHR 0x0A \<notin> set '': keep-alive''" by simp
  have 5: "resp_text \<lparr>status_code = 200,
      resp_text = frame ''{\"text\":\"Hel\"}'' @ frame '': keep-alive'' @ frame ''{\"text\":\"lo\"}''\<rparr>
     = frame ''{\"text\":\"Hel\"}'' @ frame '': keep-alive'' @ frame ''{\"text\":\"lo\"}''"
    by simp
  from stream_decode_skips_malformed [OF content_examples(1) content_examples(2) 3 4 5, of Text]
  show ?thesis by (simp add: chunk_of_def)
qed

theorem non_stream_decode_contract_witness:
  "non_stream_decode example_wire \<lparr>status_code = 200, resp_text = ''{\"text\":\"Hello\"}''\<rparr> Text
     = Inr (Whole (AggregateText ''Hello'')) \<and>
   non_stream_decode example_wire \<lparr>status_code = 200, resp_text = ''{\"text\":\"Hello\"}''\<rparr> Json
     = Inr (Whole (AggregateJson (JObject [(''text'', JString ''Hello'')]))) \<and>
   non_stream_decode example_wire \<lparr>status_code = 200, resp_text = '': keep-alive''\<rparr> Text
     = Inl (DecodeError '': keep-alive'') \<and>
   non_stream_decode example_wire \<lparr>status_code = 200, resp_text = ''[1, 2]''\<rparr> Text
     = Inl (DecodeError ''[1, 2]'') \<and>
   non_stream_decode example_wire \<lparr>status_code = 200, resp_text = ''{}''\<rparr> Json
     = Inl (DecodeError ''{}'') \<and>
   non_stream_decode example_wire \<lparr>status_code = 200, resp_text = ''{\"text\": 5}''\<rparr> Json
     = Inl (DecodeError ''{\"text\": 5}'')"
proof -
  from non_stream_decode_contract [where W = example_wire
      and response = "\<lparr>status_code = 200, resp_text = ''{\"text\":\"Hello\"}''\<rparr>"
      and kvs = "[(''text'', JString ''Hello'')]" and t = "''Hello''"]
  have 1: "non_stream_decode example_wire \<lparr>status_code = 200, resp_text = ''{\"text\":\"Hello\"}''\<rparr> Text
     = Inr (Whole (AggregateText ''Hello''))"
    and 2: "non_stream_decode example_wire \<lparr>status_code = 200, resp_text = ''{\"text\":\"Hello\"}''\<rparr> Json
     = Inr (Whole (AggregateJson (JObject [(''text'', JString ''Hello'')])))"
    by (simp_all add: example_wire_def loads_examples)
  from non_stream_decode_contract [where W = example_wire
      and response = "\<lparr>status_code = 200, resp_text = '': keep-alive''\<rparr>" and fmt = Text]
  have 3: "non_stream_decode example_wire \<lparr>status_code = 200, resp_text = '': keep-alive''\<rparr> Text
     = Inl (DecodeError '': keep-alive'')"
    by (simp add: example_wire_def loads_examples)
  from non_stream_decode_contract [where W = example_wire
      and response = "\<lparr>status_code = 200, resp_text = ''[1, 2]''\<rparr>" and fmt = Text
      and v = "JArray [JInt 1, JInt 2]"]
  have 4: "non_stream_decode example_wire \<lparr>status_code = 200, resp_text = ''[1, 2]''\<rparr> Text
     = Inl (DecodeError ''[1, 2]'')"
    by (simp add: example_wire_def loads_examples)
  from non_stream_decode_contract [where W = example_wire
      and response = "\<lparr>status_code = 200, resp_text = ''{}''\<rparr>" and fmt = Json and kvs = "[]"]
  have 5: "non_stream_decode example_wire \<lparr>status_code = 200, resp_text = ''{}''\<rparr> Json
     = Inl (DecodeError ''{}'')"
    by (simp add: example_wire_def loads_examples)
  from non_stream_decode_contract [where W = example_wire
      and response = "\<lparr>status_code = 200, resp_text = ''{\"text\": 5}''\<rparr>" and fmt = Json
      and kvs = "[(''text'', JInt 5)]" and a = "JInt 5"]
  have 6: "non_stream_decode example_wire \<lparr>status_code = 200, resp_text = ''{\"text\": 5}''\<rparr> Json
     = Inl (DecodeError ''{\"text\": 5}'')"
    by (simp add: example_wire_def loads_examples)
  from 1 2 3 4 5 6 show ?thesis by blast
qed

lemma aggregate_example:
  "aggregate_text example_wire
     (frame ''{\"text\":\"Hel\"}'' @ frame ''{\"text\":\"lo\"}'' @ frame ''[DONE]'') = ''Hello''"
  by (simp add: aggregate_text_def stream_events_def iter_lines_frame
      iter_lines_frame [of _ "[]", simplified] List.map_filter_simps
      data_value_def classify_def example_wire_def loads_examples)

lemma decode_done_frame:
  "decode_lines W fmt (iter_lines (frame ''[DONE]'' @ rest)) = ([], DONE)"
proof -
  have "on_line W fmt ''data: [DONE]'' = DONE"
    by (simp add: on_line_def data_value_def classify_def)
  then show ?thesis
    using iter_lines_frame [of "''[DONE]''" rest] by simp
qed

lemma hello_stream:
  "stream_decode example_wire
     \<lparr>status_code = 200,
      resp_text = frame ''{\"text\":\"Hel\"}'' @ frame ''{\"text\":\"lo\"}'' @ frame ''[DONE]''\<rparr>
     Text = Streamed [TextChunk ''Hel'', TextChunk ''lo''] DONE"
proof -
  have "decode_lines example_wire Text (iter_lines (frame ''[DONE]'' @ [])) = ([], DONE)"
    by (rule decode_done_frame)
  then show ?thesis
    by (simp add: stream_decode_def decode_content_frame [OF content_examples(1)]
        decode_content_frame [OF content_examples(2)] chunk_of_def)
qed

theorem stream_decode_concat_equals_non_stream_witness:
  "(\<exists>cs s. stream_decode example_wire
             \<lparr>status_code = 200,
              resp_text = frame ''{\"text\":\"Hel\"}'' @ frame ''{\"text\":\"lo\"}'' @ frame ''[DONE]''\<rparr>
             Text = Streamed cs s \<and>
           cs = map TextChunk (map chunk_text cs) \<and>
           non_stream_decode example_wire \<lparr>status_code = 200, resp_text = ''{\"text\":\"Hello\"}''\<rparr>
             Text = Inr (Whole (AggregateText (concat (map chunk_text cs))))) \<and>
   stream_decode example_wire
     \<lparr>status_code = 200,
      resp_text = frame ''{\"text\":\"Hel\"}'' @ frame ''{\"text\":\"lo\"}'' @ frame ''[DONE]''\<rparr>
     Text = Streamed [TextChunk ''Hel'', TextChunk ''lo''] DONE \<and>
   frame ''{\"text\":\"Hel\"}'' @ frame ''{\"text\":\"lo\"}'' @ frame ''[DONE]''
     = ''data: {\"text\":\"Hel\"}'' @ [CHR 0x0A, CHR 0x0A] @ ''data: {\"text\":\"lo\"}''
       @ [CHR 0x0A, CHR 0x0A] @ ''data: [DONE]'' @ [CHR 0x0A, CHR 0x0A]"
proof (intro conjI)
  show "\<exists>cs s. stream_decode example_wire
             \<lparr>status_code = 200,
              resp_text = frame ''{\"text\":\"Hel\"}'' @ frame ''{\"text\":\"lo\"}'' @ frame ''[DONE]''\<rparr>
             Text = Streamed cs s \<and>
           cs = map TextChunk (map chunk_text cs) \<and>
           non_stream_decode example_wire \<lparr>status_code = 200, resp_text = ''{\"text\":\"Hello\"}''\<rparr>
             Text = Inr (Whole (AggregateText (concat (map chunk_text cs))))"
  proof (rule stream_decode_concat_equals_non_stream)
    show "loads example_wire (resp_text \<lparr>status_code = 200, resp_text = ''{\"text\":\"Hello\"}''\<rparr>)
            = Some (JObject [(''text'', JString ''Hello'')])"
      by (simp add: example_wire_def loads_examples)
    show "map_of [(''text'', JString ''Hello'')] (answer_field example_wire)
            = Some (JString (aggregate_text example_wire
                 (resp_text \<lparr>status_code = 200,
                    resp_text = frame ''{\"text\":\"Hel\"}'' @ frame ''{\"text\":\"lo\"}''
                                @ frame ''[DONE]''\<rparr>)))"
      by (simp add: aggregate_example) (simp add: example_wire_def)
  qed
  show "stream_decode example_wire
     \<lparr>status_code = 200,
      resp_text = frame ''{\"text\":\"Hel\"}'' @ frame ''{\"text\":\"lo\"}'' @ frame ''[DONE]''\<rparr>
     Text = Streamed [TextChunk ''Hel'', TextChunk ''lo''] DONE"
    by (rule hello_stream)
  show "frame ''{\"text\":\"Hel\"}'' @ frame ''{\"text\":\"lo\"}'' @ frame ''[DONE]''
     = ''data: {\"text\":\"Hel\"}'' @ [CHR 0x0A, CHR 0x0A] @ ''data: {\"text\":\"lo\"}''
       @ [CHR 0x0A, CHR 0x0A] @ ''data: [DONE]'' @ [CHR 0x0A, CHR 0x0A]"
    by (simp add: frame_def)
qed

end
